theory Spec2Isabelle
  imports Main "HOL-Library.Sublist"
begin

section \<open>JavaScript values used by the reconciliation hook\<close>

text \<open>
  The hook \<^verbatim>\<open>useSocket\<close> (src/hooks/useSocket.ts) folds socket events into a
  \<^verbatim>\<open>GameState\<close> and a \<^verbatim>\<open>DisplayState\<close>. Its payloads are untyped JSON, and most
  of its merge rules rest on JavaScript's coalescing operators, so these are modelled
  first.

  A JavaScript number is modelled as an \<open>int\<close>: drawn numbers, cartela ids, counts and
  amounts. \<^verbatim>\<open>NaN\<close> and fractions are outside the model. An optional field, a field
  holding \<^verbatim>\<open>undefined\<close> and a field holding \<^verbatim>\<open>null\<close> are all \<open>None\<close>: the
  code only tests them with \<^verbatim>\<open>!x\<close>, \<^verbatim>\<open>||\<close>, \<^verbatim>\<open>??\<close> and \<^verbatim>\<open>?.\<close>, which do not tell
  them apart.
\<close>

definition truthy_num :: "int option \<Rightarrow> bool" where
  \<comment> \<open>a number is falsy when it is absent or 0\<close>
  "truthy_num x = (case x of None \<Rightarrow> False | Some n \<Rightarrow> n \<noteq> 0)"

definition truthy_str :: "string option \<Rightarrow> bool" where
  \<comment> \<open>a string is falsy when it is absent or empty\<close>
  "truthy_str x = (case x of None \<Rightarrow> False | Some s \<Rightarrow> s \<noteq> [])"

definition or_num :: "int option \<Rightarrow> int option \<Rightarrow> int option" where
  \<comment> \<open>\<^verbatim>\<open>a || b\<close> on numbers\<close>
  "or_num a b = (if truthy_num a then a else b)"

definition or_str :: "string option \<Rightarrow> string option \<Rightarrow> string option" where
  \<comment> \<open>\<^verbatim>\<open>a || b\<close> on strings\<close>
  "or_str a b = (if truthy_str a then a else b)"

definition or_list :: "'a list option \<Rightarrow> 'a list \<Rightarrow> 'a list" where
  \<comment> \<open>\<^verbatim>\<open>a || b\<close> on arrays: every array is truthy, the empty one too\<close>
  "or_list a b = (case a of None \<Rightarrow> b | Some xs \<Rightarrow> xs)"

definition nullish :: "'a option \<Rightarrow> 'a option \<Rightarrow> 'a option" where
  \<comment> \<open>\<^verbatim>\<open>a ?? b\<close>: only an absent value falls through\<close>
  "nullish a b = (case a of None \<Rightarrow> b | Some _ \<Rightarrow> a)"

section \<open>Column derivation\<close>

text \<open>
  \<^verbatim>\<open>getColumnForNumber\<close>, defined in useSocket.ts and again, line for line, in
  lib/utils. Outside 1..75 it returns the empty string.
\<close>

definition getColumnForNumber :: "int \<Rightarrow> string" where
  "getColumnForNumber number =
     (if number \<ge> 1 \<and> number \<le> 15 then ''B''
      else if number \<ge> 16 \<and> number \<le> 30 then ''I''
      else if number \<ge> 31 \<and> number \<le> 45 then ''N''
      else if number \<ge> 46 \<and> number \<le> 60 then ''G''
      else if number \<ge> 61 \<and> number \<le> 75 then ''O''
      else '''')"

definition columnLetters :: "string set" where
  \<comment> \<open>the five columns of \<^verbatim>\<open>BINGO_CONFIG.COLUMNS\<close>\<close>
  "columnLetters = {''B'', ''I'', ''N'', ''G'', ''O''}"

section \<open>The data model (src/types/index.ts)\<close>

text \<open>
  A field the interface marks optional (\<^verbatim>\<open>field?: T\<close>) is an option. Two record
  types may not share a field name, so the fields of \<^verbatim>\<open>DisplayState\<close> that
  \<^verbatim>\<open>GameState\<close> or the hook itself also has carry the prefix \<open>ds\<close>, and those of
  the other interfaces a prefix of their own.

  \<^verbatim>\<open>gameStatus\<close> is typed as a union of six string literals, but the handlers store
  whatever string the payload carries (and \<^verbatim>\<open>game_session_info\<close> stores the field
  even when it is missing), so it is an optional string here. The handlers also write
  two properties that the interface does not declare, \<^verbatim>\<open>progress\<close> and
  \<^verbatim>\<open>sessionId\<close>; they are fields of the record as well.
\<close>

record GameHistoryItem =
  ghGameId :: string
  ghDate :: string
  ghDuration :: string
  ghTotalNumbers :: int
  ghWinners :: int

record Top3WinnerItem =
  twPosition :: int
  twCartelaId :: string
  twGameId :: string
  twPrize :: string
  twDate :: string

record GameState =
  currentNumber :: "int option"
  currentColumn :: "string option"
  calledNumbers :: "int list"
  gameStatus :: "string option"
  gameId :: "string option"
  eventId :: "string option"
  cartelas :: "int option"
  stack :: "int option"
  totalStack :: "int option"
  totalWinStack :: "int option"
  totalShopMargin :: "int option"
  totalSystemFee :: "int option"
  netPrizePool :: "int option"
  netShopProfit :: "int option"
  gameHistory :: "GameHistoryItem list option"
  top3Winners :: "Top3WinnerItem list option"
  isLoadingGameData :: "bool option"
  selectedCartelas :: "int list option"
  progress :: "int option"
  sessionId :: "string option"

record PatternDetail =
  patternName :: string
  pattern :: "bool list list"
  matchedPositions :: "int list list"

record VerificationData =
  vCartelaId :: int
  vTicketNumber :: string
  vGameId :: string
  vStatus :: string
  vCartelaGrid :: "int list list"
  vMatchedNumbers :: "int list"
  vDrawnNumbers :: "int list"
  vWinningPatternDetails :: "PatternDetail list option"
  vGameProgress :: int
  vTotalCalledNumbers :: int
  vIsLocked :: "bool option"
  vOriginalStatus :: "string option"

datatype Language = AM | OR | TG

text \<open>
  \<^verbatim>\<open>DisplayState\<close>. The last six fields are not in the interface: the
  \<^verbatim>\<open>game_cleared\<close> handler writes \<^verbatim>\<open>gameId\<close>, \<^verbatim>\<open>status\<close>, \<^verbatim>\<open>progress\<close>,
  \<^verbatim>\<open>cartelas\<close> and \<^verbatim>\<open>winStack\<close> into the display state, and the first
  \<^verbatim>\<open>game_reset\<close> handler writes \<^verbatim>\<open>showWinner\<close> (and \<^verbatim>\<open>winnerData: null\<close>, which
  no code ever sets to anything else and which has no field here).
\<close>

record DisplayState =
  dsIsConnected :: bool
  dsConnectionError :: "string option"
  dsIsLoading :: bool
  selectedLanguage :: Language
  isFullScreen :: bool
  showGameHistory :: bool
  showTop3Winners :: bool
  showVerificationModal :: bool
  modalPersistent :: bool
  isDrawing :: bool
  show3DMixer :: "bool option"
  isShuffling :: "bool option"
  dsGameId :: "string option"
  dsStatus :: "string option"
  dsProgress :: "string option"
  dsCartelas :: "int option"
  dsWinStack :: "string option"
  showWinner :: "bool option"

text \<open>
  The socket that \<^verbatim>\<open>io(API_CONFIG.SOCKET_URL, {...})\<close> creates, by the options the
  hook passes (the URL comes from the environment and is left out).
\<close>

record SocketInstance =
  queryDisplayToken :: string
  queryS :: string
  queryType :: string
  timeout :: int
  reconnection :: bool
  reconnectionAttempts :: int
  reconnectionDelay :: int

text \<open>
  The state the hook owns: its \<^verbatim>\<open>useState\<close> cells and the ref
  \<^verbatim>\<open>prevGameIdRef\<close>.
\<close>

record HookState =
  socket :: "SocketInstance option"
  isConnected :: bool
  connectionError :: "string option"
  isLoading :: bool
  gameState :: GameState
  displayState :: DisplayState
  verificationData :: "VerificationData option"
  prevGameIdRef :: "string option"

definition initialGameState :: GameState where
  "initialGameState =
     \<lparr> currentNumber = None, currentColumn = None, calledNumbers = [],
       gameStatus = Some ''waiting'', gameId = None, eventId = None,
       cartelas = Some 0, stack = Some 0, totalStack = Some 0, totalWinStack = Some 0,
       totalShopMargin = Some 0, totalSystemFee = Some 0, netPrizePool = Some 0,
       netShopProfit = Some 0, gameHistory = Some [], top3Winners = Some [],
       isLoadingGameData = Some False, selectedCartelas = Some [],
       progress = None, sessionId = None \<rparr>"

definition initialDisplayState :: DisplayState where
  "initialDisplayState =
     \<lparr> dsIsConnected = False, dsConnectionError = None, dsIsLoading = True,
       selectedLanguage = AM, isFullScreen = False, showGameHistory = False,
       showTop3Winners = False, showVerificationModal = False, modalPersistent = False,
       isDrawing = False, show3DMixer = Some False, isShuffling = Some False,
       dsGameId = None, dsStatus = None, dsProgress = None, dsCartelas = None,
       dsWinStack = None, showWinner = None \<rparr>"

definition initialHookState :: HookState where
  "initialHookState =
     \<lparr> socket = None, isConnected = False, connectionError = None, isLoading = True,
       gameState = initialGameState, displayState = initialDisplayState,
       verificationData = None, prevGameIdRef = None \<rparr>"

text \<open>The messages of \<^verbatim>\<open>ERROR_MESSAGES\<close> and the numbers of \<^verbatim>\<open>API_CONFIG\<close>.\<close>

definition NO_TOKEN :: string where
  "NO_TOKEN = ''No display token provided in URL''"

definition CONNECTION_FAILED :: string where
  "CONNECTION_FAILED = ''Failed to connect to server''"

definition CONNECTION_LOST :: string where
  "CONNECTION_LOST = ''Connection lost. Attempting to reconnect...''"

definition INVALID_TOKEN :: string where
  "INVALID_TOKEN = ''Invalid display token!''"

definition RECONNECTION_FAILED :: string where
  "RECONNECTION_FAILED = ''Reconnection failed''"

definition INITIALIZATION_FAILED :: string where
  "INITIALIZATION_FAILED = ''Failed to initialize connection''"

definition SOCKET_TIMEOUT :: int where
  "SOCKET_TIMEOUT = 10000"

definition RECONNECTION_ATTEMPTS :: int where
  "RECONNECTION_ATTEMPTS = 5"

definition RECONNECTION_DELAY :: int where
  "RECONNECTION_DELAY = 1000"

section \<open>Events and payloads\<close>

text \<open>
  One constructor for every event name that \<^verbatim>\<open>setupSocketListeners\<close> listens to,
  with the payload fields its handlers read. A field that a handler guards
  (\<^verbatim>\<open>data?.x\<close>, \<^verbatim>\<open>data.x || y\<close>, \<^verbatim>\<open>data.x ?? y\<close>, \<^verbatim>\<open>if (data.x)\<close>) or stores as it
  comes is optional; a field that a handler uses as a value of its declared type
  (\<^verbatim>\<open>cartelaId\<close>, \<^verbatim>\<open>placedBetCartelas\<close>) is required. The payload itself is taken to
  be an object: a handler that reads \<^verbatim>\<open>data.x\<close> of a missing payload throws, which
  is outside the model. A name that has no listener (\<^verbatim>\<open>game:reset\<close> and
  \<^verbatim>\<open>number:drawn\<close> are two) is no event of the model: nothing runs on it.

  One handler reads a field it never stores: \<^verbatim>\<open>game_completed\<close> evaluates
  \<^verbatim>\<open>data.winningPatterns.join(', ')\<close> for its log line before it updates the
  state, with no \<^verbatim>\<open>try\<close> around it. The field is optional here, since the event is
  also sent with a game id alone; when it is missing the read throws and the handler
  stops there.
\<close>

text \<open>The nested \<^verbatim>\<open>gameData\<close> object of the betting and snapshot events.\<close>

record GameData =
  gdCartelas :: "int option"
  gdStack :: "int option"
  gdTotalStack :: "int option"
  gdTotalWinStack :: "int option"
  gdTotalShopMargin :: "int option"
  gdTotalSystemFee :: "int option"
  gdNetPrizePool :: "int option"
  gdNetShopProfit :: "int option"
  gdStatus :: "string option"
  gdCalledNumbers :: "int list option"
  gdCurrentNumber :: "int option"
  gdPlacedBetCartelas :: "int list option"

text \<open>The payload of \<^verbatim>\<open>game_reset\<close>, by the fields its two handlers read.\<close>

record GameResetData =
  rsGameId :: "string option"
  rsCalledNumbers :: "int list option"
  rsCartelas :: "int option"
  rsTotalStack :: "int option"
  rsTotalWinStack :: "int option"

text \<open>The payload of \<^verbatim>\<open>game:created\<close>.\<close>

record GameCreatedData =
  crGameId :: "string option"
  crStatus :: "string option"
  crCalledNumbers :: "int list option"
  crWinStack :: "int option"
  crCartelas :: "int option"

text \<open>The payload of \<^verbatim>\<open>game_data_updated\<close> and \<^verbatim>\<open>game_data_response\<close>.\<close>

record GameDataMessage =
  msgId :: "string option"
  msgStatus :: "string option"
  msgGameData :: "GameData option"

datatype (plugins only: code) Event =
    Connect                                           \<comment> \<open>\<^verbatim>\<open>connect\<close>\<close>
  | DisplayWaitingForCashier                          \<comment> \<open>\<^verbatim>\<open>display:waiting_for_cashier\<close>\<close>
  | DisplayWaitingForGame                             \<comment> \<open>\<^verbatim>\<open>display:waiting_for_game\<close>\<close>
  | CashierJoined                                     \<comment> \<open>\<^verbatim>\<open>cashier:joined\<close>\<close>
  | DisplayRoomJoined "string option"                 \<comment> \<open>\<^verbatim>\<open>display:room_joined\<close> \<open>sessionId\<close>\<close>
  | DisplayError "string option"                      \<comment> \<open>\<^verbatim>\<open>display:error\<close> \<open>message\<close>\<close>
  | GameCleared "string option"                       \<comment> \<open>\<^verbatim>\<open>game_cleared\<close> \<open>gameId\<close>\<close>
  | GameReset GameResetData                           \<comment> \<open>\<^verbatim>\<open>game_reset\<close>\<close>
  | PlacedBetsUpdated "int list" "string option"      \<comment> \<open>\<^verbatim>\<open>placed_bets_updated\<close> \<open>placedBetCartelas gameId\<close>\<close>
  | BetsPlaced "GameData option"                      \<comment> \<open>\<^verbatim>\<open>bets_placed\<close> \<open>gameData\<close>\<close>
  | GameDataUpdated GameDataMessage                   \<comment> \<open>\<^verbatim>\<open>game_data_updated\<close>\<close>
  | GameStatusUpdated "string option" "string option" \<comment> \<open>\<^verbatim>\<open>game_status_updated\<close> \<open>status gameId\<close>\<close>
  | GameComprehensiveReset "string option"            \<comment> \<open>\<^verbatim>\<open>game_comprehensive_reset\<close> \<open>newGameId\<close>\<close>
  | Disconnect                                        \<comment> \<open>\<^verbatim>\<open>disconnect\<close>\<close>
  | ConnectError                                      \<comment> \<open>\<^verbatim>\<open>connect_error\<close>\<close>
  | DisplayUnauthorized                               \<comment> \<open>\<^verbatim>\<open>display:unauthorized\<close>\<close>
  | GameStart "string option" "string option"         \<comment> \<open>\<^verbatim>\<open>game_start\<close> \<open>gameId eventId\<close>\<close>
  | NumberCalled "int option"                         \<comment> \<open>\<^verbatim>\<open>number_called\<close> \<open>number\<close>\<close>
  | GameEnd                                           \<comment> \<open>\<^verbatim>\<open>game_end\<close>\<close>
  | GameCreated GameCreatedData                       \<comment> \<open>\<^verbatim>\<open>game:created\<close>\<close>
  | GameStarted "string option"                       \<comment> \<open>\<^verbatim>\<open>game_started\<close> \<open>gameId\<close>\<close>
  | GamePaused                                        \<comment> \<open>\<^verbatim>\<open>game:paused\<close>\<close>
  | GameResumed                                       \<comment> \<open>\<^verbatim>\<open>game:resumed\<close>\<close>
  | GameEnded                                         \<comment> \<open>\<^verbatim>\<open>game_ended\<close>\<close>
  | NumberDrawn "int option" "int list option"        \<comment> \<open>\<^verbatim>\<open>number_drawn\<close> \<open>number calledNumbers\<close>\<close>
  | GameUpdate "string option" "int option" "int option" "int option"
                                                      \<comment> \<open>\<^verbatim>\<open>game:update\<close> \<open>status cartelas winStack totalStack\<close>\<close>
  | GameIdUpdated "string option"                     \<comment> \<open>\<^verbatim>\<open>game_id_updated\<close> \<open>gameId\<close>\<close>
  | GameDataResponse GameDataMessage                  \<comment> \<open>\<^verbatim>\<open>game_data_response\<close>\<close>
  | CartelaVerified VerificationData                  \<comment> \<open>\<^verbatim>\<open>cartela_verified\<close>\<close>
  | CloseVerificationModal "string option"            \<comment> \<open>\<^verbatim>\<open>close-verification-modal\<close> \<open>sessionId\<close>\<close>
  | CloseVerificationModalDisplay "string option"     \<comment> \<open>\<^verbatim>\<open>close-verification-modal-display\<close> \<open>sessionId\<close>\<close>
  | GameSessionInfo "string option" "string option" "string option"
                                                      \<comment> \<open>\<^verbatim>\<open>game_session_info\<close> \<open>gameId sessionId status\<close>\<close>
  | RoomJoined                                        \<comment> \<open>\<^verbatim>\<open>room_joined\<close>\<close>
  | UserJoinedRoom                                    \<comment> \<open>\<^verbatim>\<open>user_joined_room\<close>\<close>
  | CashierJoinedRoom "string option"                 \<comment> \<open>\<^verbatim>\<open>cashier_joined_room\<close> \<open>gameId\<close>\<close>
  | ConnectionStatusUpdate "string option" "bool option"
                                                      \<comment> \<open>\<^verbatim>\<open>connection_status_update\<close> \<open>sessionId displayConnected\<close>\<close>
  | DisplayConnectionStatus "string option" "bool option"
                                                      \<comment> \<open>\<^verbatim>\<open>display:connection_status\<close> \<open>sessionId connected\<close>\<close>
  | DisplayConnected                                  \<comment> \<open>\<^verbatim>\<open>display:connected\<close>\<close>
  | ShowCartelas                                      \<comment> \<open>\<^verbatim>\<open>show_cartelas\<close>\<close>
  | CloseCartelasEvent                                \<comment> \<open>\<^verbatim>\<open>close_cartelas\<close>\<close>
  | RefreshPages "string option" "string option"      \<comment> \<open>\<^verbatim>\<open>refresh_pages\<close> \<open>message sessionId\<close>\<close>
  | VerificationModalClosed "string option"           \<comment> \<open>\<^verbatim>\<open>verification_modal_closed\<close> \<open>sessionId\<close>\<close>
  | GameCompleted "string option" "string list option"
                                                      \<comment> \<open>\<^verbatim>\<open>game_completed\<close> \<open>gameId winningPatterns\<close>\<close>
  | EndGame "string option" "string option"           \<comment> \<open>\<^verbatim>\<open>end_game\<close> \<open>gameId sessionId\<close>\<close>
  | GameDataRefresh                                   \<comment> \<open>\<^verbatim>\<open>game_data_refresh\<close>\<close>
  | CartelaSelected int                               \<comment> \<open>\<^verbatim>\<open>cartela_selected\<close> \<open>cartelaId\<close>\<close>
  | CartelaDeselected int                             \<comment> \<open>\<^verbatim>\<open>cartela_deselected\<close> \<open>cartelaId\<close>\<close>
  | CartelasCleared "string option"                   \<comment> \<open>\<^verbatim>\<open>cartelas_cleared\<close> \<open>sessionId\<close>\<close>
  | CartelaSelectionsResponse "int list option"       \<comment> \<open>\<^verbatim>\<open>cartela_selections_response\<close> \<open>selectedCartelas\<close>\<close>
  | TicketCancelled int "string option"               \<comment> \<open>\<^verbatim>\<open>ticket_cancelled\<close> \<open>cartelaId sessionId\<close>\<close>
  | Reconnect                                         \<comment> \<open>\<^verbatim>\<open>reconnect\<close>\<close>
  | ReconnectError                                    \<comment> \<open>\<^verbatim>\<open>reconnect_error\<close>\<close>
  | DisplayShuffleAnimation "string option" "string option"
                                                      \<comment> \<open>\<^verbatim>\<open>display:shuffle_animation\<close> \<open>sessionId action\<close>\<close>

text \<open>
  What a handler does besides updating the hook's state. The hook is used with all of
  its callbacks, as \<^verbatim>\<open>DisplayPage\<close> does, so \<^verbatim>\<open>onCloseCartelasRef.current\<close> and the
  sound callbacks are present.
\<close>

datatype Effect =
    Emit string string              \<comment> \<open>\<^verbatim>\<open>socket.emit(name, ...)\<close> with the token or game id it sends\<close>
  | After nat Effect                \<comment> \<open>\<^verbatim>\<open>setTimeout(..., ms)\<close>\<close>
  | CloseCartelas                   \<comment> \<open>\<^verbatim>\<open>onCloseCartelasRef.current()\<close>\<close>
  | SetJustStarted string           \<comment> \<open>\<^verbatim>\<open>localStorage.setItem(`cartela_display_${token}_just_started`, 'true')\<close>\<close>
  | PlayNumberSound int
  | PlayWinSound
  | PlayLostSound
  | Reload                          \<comment> \<open>\<^verbatim>\<open>window.location.reload()\<close>\<close>
  | DispatchPlacedBetsUpdated "int list"  \<comment> \<open>the window event \<^verbatim>\<open>placed_bets_updated\<close>\<close>
  | DispatchCartelasCleared         \<comment> \<open>the window event \<^verbatim>\<open>cartelas_cleared\<close>\<close>
  | ClearIsDrawing                  \<comment> \<open>\<^verbatim>\<open>setDisplayState(prev => ({ ...prev, isDrawing: false }))\<close>\<close>
  | UncaughtTypeError               \<comment> \<open>the handler threw and stopped: a method read of a missing field\<close>

section \<open>The \<^verbatim>\<open>setGameState\<close> updaters of the handlers\<close>

text \<open>
  Each definition is the function a handler passes to \<^verbatim>\<open>setGameState\<close>, with the
  handler's guard around it; \<open>prev\<close> is the previous state, as in the source.
\<close>

definition fld :: "'r option \<Rightarrow> ('r \<Rightarrow> 'a option) \<Rightarrow> 'a option" where
  \<comment> \<open>\<^verbatim>\<open>obj?.field\<close>\<close>
  "fld obj field = (case obj of None \<Rightarrow> None | Some d \<Rightarrow> field d)"

definition column_or :: "int option \<Rightarrow> string option \<Rightarrow> string option" where
  \<comment> \<open>\<^verbatim>\<open>n ? getColumnForNumber(n) : c\<close>\<close>
  "column_or n c =
     (case n of None \<Rightarrow> c | Some k \<Rightarrow> if k \<noteq> 0 then Some (getColumnForNumber k) else c)"

definition game_cleared_handler :: "string option \<Rightarrow> GameState \<Rightarrow> GameState" where
  "game_cleared_handler dataGameId prev =
     prev\<lparr> gameId := or_str dataGameId None, gameStatus := Some ''waiting'' \<rparr>"

definition game_reset_handler1 :: "GameResetData \<Rightarrow> GameState \<Rightarrow> GameState" where
  \<comment> \<open>the handler registered first (useSocket.ts, line 209)\<close>
  "game_reset_handler1 d prev =
     prev\<lparr> gameId := rsGameId d,
            gameStatus := Some ''waiting'',
            calledNumbers := [],
            currentNumber := None,
            currentColumn := None,
            progress := Some 0,
            cartelas := Some 0,
            totalStack := Some 0,
            totalWinStack := Some 0,
            totalShopMargin := Some 0,
            totalSystemFee := Some 0,
            netPrizePool := Some 0,
            eventId := None,
            gameHistory := Some [],
            top3Winners := Some [],
            isLoadingGameData := Some False \<rparr>"

definition game_reset_handler2 :: "GameResetData \<Rightarrow> GameState \<Rightarrow> GameState" where
  \<comment> \<open>the handler registered second (useSocket.ts, line 622)\<close>
  "game_reset_handler2 d prev =
     prev\<lparr> gameId := rsGameId d,
            gameStatus := Some ''waiting'',
            calledNumbers := or_list (rsCalledNumbers d) [],
            currentNumber := None,
            currentColumn := None,
            cartelas := nullish (rsCartelas d) (cartelas prev),
            totalWinStack := nullish (rsTotalWinStack d) (totalWinStack prev),
            totalStack := nullish (rsTotalStack d) (totalStack prev),
            eventId := None,
            gameHistory := Some [],
            top3Winners := Some [],
            isLoadingGameData := Some False,
            sessionId := None \<rparr>"

definition placed_bets_updated_handler1 :: "int list \<Rightarrow> GameState \<Rightarrow> GameState" where
  "placed_bets_updated_handler1 placedBetCartelas prev =
     prev\<lparr> cartelas := or_num (Some (int (length placedBetCartelas))) (cartelas prev) \<rparr>"

definition placed_bets_updated_handler2 :: "string option \<Rightarrow> GameState \<Rightarrow> GameState" where
  "placed_bets_updated_handler2 dataGameId prev =
     prev\<lparr> gameId := or_str dataGameId (gameId prev) \<rparr>"

definition bets_placed_handler :: "GameData option \<Rightarrow> GameState \<Rightarrow> GameState" where
  "bets_placed_handler gameData prev =
     prev\<lparr> cartelas := or_num (fld gameData gdCartelas) (cartelas prev),
            stack := or_num (fld gameData gdStack) (stack prev),
            totalStack := or_num (fld gameData gdTotalStack) (totalStack prev),
            totalWinStack := or_num (fld gameData gdTotalWinStack) (totalWinStack prev),
            totalShopMargin := or_num (fld gameData gdTotalShopMargin) (totalShopMargin prev),
            totalSystemFee := or_num (fld gameData gdTotalSystemFee) (totalSystemFee prev),
            netPrizePool := or_num (fld gameData gdNetPrizePool) (netPrizePool prev),
            netShopProfit := or_num (fld gameData gdNetShopProfit) (netShopProfit prev),
            gameStatus := or_str (fld gameData gdStatus) (gameStatus prev),
            calledNumbers := or_list (fld gameData gdCalledNumbers) (calledNumbers prev),
            currentNumber := or_num (fld gameData gdCurrentNumber) (currentNumber prev),
            currentColumn := column_or (fld gameData gdCurrentNumber) (currentColumn prev) \<rparr>"

definition game_data_updated_handler1 :: "GameDataMessage \<Rightarrow> GameState \<Rightarrow> GameState" where
  \<comment> \<open>the handler registered first (useSocket.ts, line 347)\<close>
  "game_data_updated_handler1 d prev =
     (if truthy_str (msgId d) then
        prev\<lparr> gameId := msgId d,
               gameStatus := or_str (msgStatus d) (gameStatus prev),
               cartelas := or_num (fld (msgGameData d) gdCartelas) (cartelas prev),
               totalStack := or_num (fld (msgGameData d) gdTotalStack) (totalStack prev),
               totalWinStack := or_num (fld (msgGameData d) gdTotalWinStack) (totalWinStack prev),
               totalShopMargin :=
                 or_num (fld (msgGameData d) gdTotalShopMargin) (totalShopMargin prev),
               totalSystemFee :=
                 or_num (fld (msgGameData d) gdTotalSystemFee) (totalSystemFee prev),
               netPrizePool := or_num (fld (msgGameData d) gdNetPrizePool) (netPrizePool prev),
               netShopProfit := or_num (fld (msgGameData d) gdNetShopProfit) (netShopProfit prev),
               calledNumbers :=
                 or_list (fld (msgGameData d) gdCalledNumbers) (calledNumbers prev),
               currentNumber := or_num (fld (msgGameData d) gdCurrentNumber) (currentNumber prev),
               currentColumn :=
                 column_or (fld (msgGameData d) gdCurrentNumber) (currentColumn prev) \<rparr>
      else prev)"

definition game_status_updated_handler ::
  "string option \<Rightarrow> string option \<Rightarrow> GameState \<Rightarrow> GameState" where
  "game_status_updated_handler dataStatus dataGameId prev =
     (if truthy_str dataStatus then
        prev\<lparr> gameStatus := dataStatus, gameId := or_str dataGameId (gameId prev) \<rparr>
      else prev)"

definition game_comprehensive_reset_handler :: "string option \<Rightarrow> GameState \<Rightarrow> GameState" where
  "game_comprehensive_reset_handler newGameId prev =
     prev\<lparr> gameId := or_str newGameId None,
            gameStatus := Some ''waiting'',
            calledNumbers := [],
            currentNumber := None,
            currentColumn := None,
            eventId := None,
            gameHistory := Some [],
            top3Winners := Some [],
            isLoadingGameData := Some False,
            sessionId := None,
            selectedCartelas := Some [] \<rparr>"

definition game_start_handler ::
  "string option \<Rightarrow> string option \<Rightarrow> GameState \<Rightarrow> GameState" where
  "game_start_handler dataGameId dataEventId prev =
     (if truthy_str dataGameId then
        prev\<lparr> gameStatus := Some ''active'', gameId := dataGameId, eventId := dataEventId \<rparr>
      else prev)"

definition number_called_handler :: "int option \<Rightarrow> GameState \<Rightarrow> GameState" where
  "number_called_handler dataNumber prev =
     (case dataNumber of
        None \<Rightarrow> prev
      | Some n \<Rightarrow>
          if n \<noteq> 0 \<and> n \<ge> 1 \<and> n \<le> 75 then
            prev\<lparr> currentNumber := Some n,
                   currentColumn := Some (getColumnForNumber n),
                   calledNumbers := calledNumbers prev @ [n] \<rparr>
          else prev)"

definition game_end_handler :: "GameState \<Rightarrow> GameState" where
  "game_end_handler prev = prev\<lparr> gameStatus := Some ''finished'' \<rparr>"

definition game_created_handler :: "GameCreatedData \<Rightarrow> GameState \<Rightarrow> GameState" where
  "game_created_handler d prev =
     prev\<lparr> gameId := crGameId d,
            gameStatus :=
              (if crStatus d = Some ''pending'' then Some ''waiting''
               else or_str (crStatus d) (Some ''waiting'')),
            calledNumbers := or_list (crCalledNumbers d) [],
            currentNumber := None,
            currentColumn := None,
            totalWinStack := or_num (crWinStack d) (Some 0),
            cartelas := or_num (crCartelas d) (Some 0) \<rparr>"

definition game_started_handler :: "string option \<Rightarrow> GameState \<Rightarrow> GameState" where
  "game_started_handler dataGameId prev =
     prev\<lparr> gameStatus := Some ''active'', gameId := dataGameId \<rparr>"

definition game_paused_handler :: "GameState \<Rightarrow> GameState" where
  "game_paused_handler prev = prev\<lparr> gameStatus := Some ''paused'' \<rparr>"

definition game_resumed_handler :: "GameState \<Rightarrow> GameState" where
  "game_resumed_handler prev = prev\<lparr> gameStatus := Some ''active'' \<rparr>"

definition game_ended_handler :: "GameState \<Rightarrow> GameState" where
  "game_ended_handler prev =
     prev\<lparr> gameStatus := Some ''waiting'',
            currentNumber := None,
            currentColumn := None,
            calledNumbers := [],
            eventId := None,
            gameHistory := Some [],
            top3Winners := Some [],
            isLoadingGameData := Some False,
            sessionId := None \<rparr>"

definition number_drawn_handler ::
  "int option \<Rightarrow> int list option \<Rightarrow> GameState \<Rightarrow> GameState" where
  "number_drawn_handler dataNumber dataCalledNumbers prev =
     prev\<lparr> calledNumbers := or_list dataCalledNumbers (calledNumbers prev),
            currentNumber := dataNumber,
            currentColumn := column_or dataNumber None \<rparr>"

definition game_update_handler ::
  "string option \<Rightarrow> int option \<Rightarrow> int option \<Rightarrow> int option \<Rightarrow> GameState \<Rightarrow> GameState" where
  \<comment> \<open>\<^verbatim>\<open>typeof x === 'number' ? x : y\<close> takes \<open>x\<close> exactly when it is present\<close>
  "game_update_handler dataStatus dataCartelas dataWinStack dataTotalStack prev =
     prev\<lparr> gameStatus :=
              (if truthy_str dataStatus then
                 (if dataStatus = Some ''pending'' then Some ''waiting'' else dataStatus)
               else gameStatus prev),
            cartelas := nullish dataCartelas (cartelas prev),
            totalWinStack := nullish dataWinStack (totalWinStack prev),
            totalStack := nullish dataTotalStack (totalStack prev) \<rparr>"

definition shouldUpdateGameId :: "string option \<Rightarrow> string option \<Rightarrow> bool" where
  \<comment> \<open>\<^verbatim>\<open>!prev.gameId || (id && id !== prev.gameId)\<close>\<close>
  "shouldUpdateGameId prevGameId newId =
     (\<not> truthy_str prevGameId \<or> (truthy_str newId \<and> newId \<noteq> prevGameId))"

definition game_data_updated_handler2 :: "GameDataMessage \<Rightarrow> GameState \<Rightarrow> GameState" where
  \<comment> \<open>the handler registered second (useSocket.ts, line 739)\<close>
  "game_data_updated_handler2 d prev =
     (if truthy_str (msgId d) then
        (let isGameWaiting = (msgStatus d = Some ''waiting'') in
         prev\<lparr> gameId :=
                  (if shouldUpdateGameId (gameId prev) (msgId d) then msgId d else gameId prev),
                gameStatus := or_str (msgStatus d) (gameStatus prev),
                calledNumbers :=
                  (if isGameWaiting then []
                   else or_list (fld (msgGameData d) gdCalledNumbers) (calledNumbers prev)),
                currentNumber :=
                  (if isGameWaiting then None
                   else or_num (fld (msgGameData d) gdCurrentNumber) (currentNumber prev)),
                currentColumn :=
                  (if isGameWaiting then None
                   else column_or (fld (msgGameData d) gdCurrentNumber) (currentColumn prev)),
                totalWinStack := nullish (fld (msgGameData d) gdTotalWinStack) (totalWinStack prev),
                totalStack := nullish (fld (msgGameData d) gdTotalStack) (totalStack prev),
                cartelas := nullish (fld (msgGameData d) gdCartelas) (cartelas prev),
                stack := nullish (fld (msgGameData d) gdStack) (stack prev),
                totalShopMargin :=
                  nullish (fld (msgGameData d) gdTotalShopMargin) (totalShopMargin prev),
                totalSystemFee :=
                  nullish (fld (msgGameData d) gdTotalSystemFee) (totalSystemFee prev),
                netPrizePool := nullish (fld (msgGameData d) gdNetPrizePool) (netPrizePool prev),
                netShopProfit :=
                  nullish (fld (msgGameData d) gdNetShopProfit) (netShopProfit prev),
                isLoadingGameData := Some False \<rparr>)
      else prev)"

definition game_id_updated_handler :: "string option \<Rightarrow> GameState \<Rightarrow> GameState" where
  "game_id_updated_handler dataGameId prev =
     (if truthy_str dataGameId then prev\<lparr> gameId := dataGameId \<rparr> else prev)"

definition game_data_response_handler :: "GameDataMessage \<Rightarrow> GameState \<Rightarrow> GameState" where
  "game_data_response_handler d prev =
     (if truthy_str (msgId d) then
        (let isGameWaiting = (msgStatus d = Some ''waiting'') in
         prev\<lparr> gameId :=
                  (if shouldUpdateGameId (gameId prev) (msgId d) then msgId d else gameId prev),
                gameStatus := or_str (msgStatus d) (gameStatus prev),
                calledNumbers :=
                  (if isGameWaiting then []
                   else or_list (fld (msgGameData d) gdCalledNumbers) (calledNumbers prev)),
                currentNumber :=
                  (if isGameWaiting then None
                   else or_num (fld (msgGameData d) gdCurrentNumber) (currentNumber prev)),
                currentColumn :=
                  (if isGameWaiting then None
                   else column_or (fld (msgGameData d) gdCurrentNumber) (currentColumn prev)),
                totalWinStack := nullish (fld (msgGameData d) gdTotalWinStack) (totalWinStack prev),
                totalStack := nullish (fld (msgGameData d) gdTotalStack) (totalStack prev),
                cartelas := nullish (fld (msgGameData d) gdCartelas) (cartelas prev),
                totalShopMargin :=
                  nullish (fld (msgGameData d) gdTotalShopMargin) (totalShopMargin prev),
                totalSystemFee :=
                  nullish (fld (msgGameData d) gdTotalSystemFee) (totalSystemFee prev),
                netPrizePool := nullish (fld (msgGameData d) gdNetPrizePool) (netPrizePool prev),
                isLoadingGameData := Some False \<rparr>)
      else prev)"

definition game_session_info_handler ::
  "string option \<Rightarrow> string option \<Rightarrow> string option \<Rightarrow> GameState \<Rightarrow> GameState" where
  "game_session_info_handler dataGameId dataSessionId dataStatus prev =
     prev\<lparr> gameId :=
              (if shouldUpdateGameId (gameId prev) dataGameId then dataGameId else gameId prev),
            sessionId := dataSessionId,
            gameStatus := dataStatus \<rparr>"

definition cashier_joined_room_handler :: "string option \<Rightarrow> GameState \<Rightarrow> GameState" where
  "cashier_joined_room_handler dataGameId prev =
     (if truthy_str dataGameId then
        prev\<lparr> gameId :=
                 (if shouldUpdateGameId (gameId prev) dataGameId then dataGameId
                  else gameId prev) \<rparr>
      else prev)"

definition game_completed_handler ::
  "string option \<Rightarrow> string list option \<Rightarrow> GameState \<Rightarrow> GameState" where
  \<comment> \<open>\<^verbatim>\<open>data.winningPatterns.join(', ')\<close> (line 1096) comes before \<^verbatim>\<open>setGameState\<close>
      (line 1099): without the array the handler throws and the state is not updated\<close>
  "game_completed_handler dataGameId dataWinningPatterns prev =
     (case dataWinningPatterns of
        None \<Rightarrow> prev
      | Some winningPatterns \<Rightarrow>
          prev\<lparr> gameStatus := Some ''completed'', gameId := dataGameId \<rparr>)"

definition end_game_handler :: "string option \<Rightarrow> GameState \<Rightarrow> GameState" where
  "end_game_handler dataGameId prev =
     prev\<lparr> gameStatus := Some ''completed'', gameId := dataGameId \<rparr>"

definition cartela_selected_handler :: "int \<Rightarrow> GameState \<Rightarrow> GameState" where
  "cartela_selected_handler cartelaId prev =
     prev\<lparr> selectedCartelas := Some (or_list (selectedCartelas prev) [] @ [cartelaId]) \<rparr>"

definition cartela_deselected_handler :: "int \<Rightarrow> GameState \<Rightarrow> GameState" where
  "cartela_deselected_handler cartelaId prev =
     prev\<lparr> selectedCartelas :=
              Some (filter (\<lambda>id. id \<noteq> cartelaId) (or_list (selectedCartelas prev) [])) \<rparr>"

definition cartelas_cleared_handler :: "GameState \<Rightarrow> GameState" where
  "cartelas_cleared_handler prevState = prevState\<lparr> selectedCartelas := Some [] \<rparr>"

definition cartela_selections_response_handler ::
  "int list option \<Rightarrow> GameState \<Rightarrow> GameState" where
  "cartela_selections_response_handler dataSelectedCartelas prevState =
     prevState\<lparr> selectedCartelas := dataSelectedCartelas \<rparr>"

definition ticket_cancelled_handler :: "int \<Rightarrow> GameState \<Rightarrow> GameState" where
  "ticket_cancelled_handler cartelaId prevState =
     prevState\<lparr> selectedCartelas :=
                   Some (filter (\<lambda>id. id \<noteq> cartelaId)
                          (or_list (selectedCartelas prevState) [])) \<rparr>"

text \<open>
  socket.io calls the listeners of an event in the order in which they were
  registered, and React applies queued updater functions in the order of the
  \<^verbatim>\<open>setGameState\<close> calls. So the game state after an event is the composition of the
  updaters of all handlers registered for its name, first registered first applied;
  \<^verbatim>\<open>game_reset\<close>, \<^verbatim>\<open>game_data_updated\<close> and \<^verbatim>\<open>placed_bets_updated\<close> each have two.
  An event whose handlers do not call \<^verbatim>\<open>setGameState\<close> leaves the game state as it
  is.
\<close>

definition reduce_game :: "Event \<Rightarrow> GameState \<Rightarrow> GameState" where
  "reduce_game ev prev =
     (case ev of
        GameCleared i \<Rightarrow> game_cleared_handler i prev
      | GameReset d \<Rightarrow> game_reset_handler2 d (game_reset_handler1 d prev)
      | PlacedBetsUpdated pbs i \<Rightarrow>
          placed_bets_updated_handler2 i (placed_bets_updated_handler1 pbs prev)
      | BetsPlaced gd \<Rightarrow> bets_placed_handler gd prev
      | GameDataUpdated d \<Rightarrow> game_data_updated_handler2 d (game_data_updated_handler1 d prev)
      | GameStatusUpdated s i \<Rightarrow> game_status_updated_handler s i prev
      | GameComprehensiveReset i \<Rightarrow> game_comprehensive_reset_handler i prev
      | GameStart i e \<Rightarrow> game_start_handler i e prev
      | NumberCalled n \<Rightarrow> number_called_handler n prev
      | GameEnd \<Rightarrow> game_end_handler prev
      | GameCreated d \<Rightarrow> game_created_handler d prev
      | GameStarted i \<Rightarrow> game_started_handler i prev
      | GamePaused \<Rightarrow> game_paused_handler prev
      | GameResumed \<Rightarrow> game_resumed_handler prev
      | GameEnded \<Rightarrow> game_ended_handler prev
      | NumberDrawn n cs \<Rightarrow> number_drawn_handler n cs prev
      | GameUpdate s c w t \<Rightarrow> game_update_handler s c w t prev
      | GameIdUpdated i \<Rightarrow> game_id_updated_handler i prev
      | GameDataResponse d \<Rightarrow> game_data_response_handler d prev
      | GameSessionInfo i sid s \<Rightarrow> game_session_info_handler i sid s prev
      | CashierJoinedRoom i \<Rightarrow> cashier_joined_room_handler i prev
      | GameCompleted i wp \<Rightarrow> game_completed_handler i wp prev
      | EndGame i sid \<Rightarrow> end_game_handler i prev
      | CartelaSelected c \<Rightarrow> cartela_selected_handler c prev
      | CartelaDeselected c \<Rightarrow> cartela_deselected_handler c prev
      | CartelasCleared sid \<Rightarrow> cartelas_cleared_handler prev
      | CartelaSelectionsResponse sel \<Rightarrow> cartela_selections_response_handler sel prev
      | TicketCancelled c sid \<Rightarrow> ticket_cancelled_handler c prev
      | _ \<Rightarrow> prev)"

section \<open>The other state the handlers write, and their effects\<close>

text \<open>
  \<open>tok\<close> is the display token of the hook. \<^verbatim>\<open>setupSocketListeners\<close> runs only with a
  token that is a non-empty string (the connection effect returns before it
  otherwise), and it closes over that token both as \<^verbatim>\<open>token\<close> and as
  \<^verbatim>\<open>displayToken\<close>; so \<^verbatim>\<open>data.sessionId === displayToken\<close> is \<open>sid = Some tok\<close>.
\<close>

definition reduce_display :: "string \<Rightarrow> Event \<Rightarrow> DisplayState \<Rightarrow> DisplayState" where
  "reduce_display tok ev prev =
     (case ev of
        Connect \<Rightarrow>
          prev\<lparr> dsIsConnected := True, dsConnectionError := None, dsIsLoading := False \<rparr>
      | DisplayWaitingForCashier \<Rightarrow>
          prev\<lparr> dsConnectionError := Some ''Waiting for cashier to connect...'' \<rparr>
      | DisplayWaitingForGame \<Rightarrow>
          prev\<lparr> dsConnectionError := Some ''Waiting for game to start...'',
                 dsIsConnected := False \<rparr>
      | CashierJoined \<Rightarrow> prev\<lparr> dsConnectionError := None \<rparr>
      | DisplayRoomJoined sid \<Rightarrow> prev\<lparr> dsConnectionError := None \<rparr>
      | DisplayError msg \<Rightarrow>
          prev\<lparr> dsIsConnected := False,
                 dsConnectionError := or_str msg (Some ''Connection error occurred'') \<rparr>
      | GameCleared i \<Rightarrow>
          prev\<lparr> dsGameId := or_str i None,
                 dsStatus := Some ''waiting'',
                 dsProgress := Some ''0/75'',
                 dsCartelas := Some 0,
                 dsWinStack := Some ''Br. 0'',
                 dsConnectionError := Some ''Game ended and cleared'' \<rparr>
      | GameReset d \<Rightarrow> prev\<lparr> showWinner := Some False \<rparr>
      | Disconnect \<Rightarrow>
          prev\<lparr> dsIsConnected := False, dsConnectionError := Some CONNECTION_LOST \<rparr>
      | ConnectError \<Rightarrow>
          prev\<lparr> dsIsConnected := False, dsConnectionError := Some CONNECTION_FAILED,
                 dsIsLoading := False \<rparr>
      | DisplayUnauthorized \<Rightarrow>
          prev\<lparr> dsIsConnected := False, dsConnectionError := Some INVALID_TOKEN \<rparr>
      | NumberDrawn n cs \<Rightarrow> prev\<lparr> isDrawing := True \<rparr>
      | CartelaVerified d \<Rightarrow>
          prev\<lparr> showVerificationModal := True, modalPersistent := True \<rparr>
      | CloseVerificationModal sid \<Rightarrow>
          (if sid = Some tok then
             prev\<lparr> showVerificationModal := False, modalPersistent := False \<rparr>
           else prev)
      | CloseVerificationModalDisplay sid \<Rightarrow>
          (if sid = Some tok then
             prev\<lparr> showVerificationModal := False, modalPersistent := False \<rparr>
           else prev)
      | CashierJoinedRoom i \<Rightarrow> prev\<lparr> dsIsConnected := True \<rparr>
      | ConnectionStatusUpdate sid displayConnected \<Rightarrow>
          (if sid = Some tok then prev\<lparr> dsIsConnected := (displayConnected = Some True) \<rparr>
           else prev)
      | DisplayConnectionStatus sid connected \<Rightarrow>
          (if sid = Some tok then prev\<lparr> dsIsConnected := (connected = Some True) \<rparr>
           else prev)
      | DisplayConnected \<Rightarrow> prev\<lparr> dsIsConnected := True \<rparr>
      | Reconnect \<Rightarrow>
          prev\<lparr> dsIsConnected := True, dsConnectionError := None, dsIsLoading := False \<rparr>
      | ReconnectError \<Rightarrow>
          prev\<lparr> dsIsConnected := False, dsConnectionError := Some RECONNECTION_FAILED \<rparr>
      | DisplayShuffleAnimation sid action \<Rightarrow>
          (if action = Some ''start'' then
             prev\<lparr> show3DMixer := Some True, isShuffling := Some True \<rparr>
           else if action = Some ''complete'' then
             prev\<lparr> show3DMixer := Some False, isShuffling := Some False \<rparr>
           else prev)
      | _ \<Rightarrow> prev)"

text \<open>
  The hook's own cells: \<^verbatim>\<open>setIsConnected\<close>, \<^verbatim>\<open>setConnectionError\<close>,
  \<^verbatim>\<open>setIsLoading\<close>, \<^verbatim>\<open>setVerificationData\<close> and the ref \<^verbatim>\<open>prevGameIdRef\<close>.
\<close>

definition reduce_cells :: "string \<Rightarrow> Event \<Rightarrow> HookState \<Rightarrow> HookState" where
  "reduce_cells tok ev h =
     (case ev of
        Connect \<Rightarrow> h\<lparr> isConnected := True, connectionError := None, isLoading := False \<rparr>
      | DisplayError msg \<Rightarrow> h\<lparr> connectionError := msg \<rparr>
      | Disconnect \<Rightarrow> h\<lparr> isConnected := False, connectionError := Some CONNECTION_LOST \<rparr>
      | ConnectError \<Rightarrow>
          h\<lparr> isConnected := False, connectionError := Some CONNECTION_FAILED,
              isLoading := False \<rparr>
      | DisplayUnauthorized \<Rightarrow>
          h\<lparr> isConnected := False, connectionError := Some INVALID_TOKEN \<rparr>
      | GameCreated d \<Rightarrow> h\<lparr> prevGameIdRef := crGameId d \<rparr>
      | GameStarted i \<Rightarrow> h\<lparr> prevGameIdRef := i \<rparr>
      | CartelaVerified d \<Rightarrow> h\<lparr> verificationData := Some d \<rparr>
      | CloseVerificationModal sid \<Rightarrow>
          (if sid = Some tok then h\<lparr> verificationData := None \<rparr> else h)
      | CloseVerificationModalDisplay sid \<Rightarrow>
          (if sid = Some tok then h\<lparr> verificationData := None \<rparr> else h)
      | Reconnect \<Rightarrow> h\<lparr> isConnected := True, connectionError := None, isLoading := False \<rparr>
      | ReconnectError \<Rightarrow>
          h\<lparr> isConnected := False, connectionError := Some RECONNECTION_FAILED \<rparr>
      | _ \<Rightarrow> h)"

fun str_includes :: "string \<Rightarrow> string \<Rightarrow> bool" where
  \<comment> \<open>\<^verbatim>\<open>s.includes(sub)\<close>\<close>
  "str_includes [] sub = (sub = [])"
| "str_includes (c # cs) sub = (prefix sub (c # cs) \<or> str_includes cs sub)"

definition mapKeys :: "int list \<Rightarrow> int list" where
  \<comment> \<open>the keys of the \<^verbatim>\<open>Map\<close> built from a list of ids: each id once, in the order of
      its first occurrence\<close>
  "mapKeys ids = rev (remdups (rev ids))"

definition leave_previous :: "string option \<Rightarrow> string option \<Rightarrow> Effect list" where
  \<comment> \<open>\<^verbatim>\<open>if (prevGameIdRef.current && prevGameIdRef.current !== data.gameId) emit(LEAVE_GAME)\<close>\<close>
  "leave_previous prevRef dataGameId =
     (case prevRef of
        None \<Rightarrow> []
      | Some p \<Rightarrow> if p \<noteq> [] \<and> Some p \<noteq> dataGameId then [Emit ''leave_game'' p] else [])"

definition join_game :: "string option \<Rightarrow> Effect list" where
  \<comment> \<open>\<^verbatim>\<open>if (data.gameId && socketInstance) emit(JOIN_GAME)\<close>\<close>
  "join_game dataGameId =
     (case dataGameId of
        None \<Rightarrow> []
      | Some i \<Rightarrow> if i \<noteq> [] then [Emit ''join_game'' i] else [])"

definition close_and_flag :: "string \<Rightarrow> Effect list" where
  \<comment> \<open>the game start handlers: close the cartela display, then set the flag\<close>
  "close_and_flag tok = CloseCartelas # (if tok \<noteq> [] then [SetJustStarted tok] else [])"

definition request_game_data :: "string \<Rightarrow> Effect" where
  \<comment> \<open>\<^verbatim>\<open>setTimeout(() => socketInstance.emit('get_game_data', { sessionId }), 500)\<close>\<close>
  "request_game_data tok = After 500 (Emit ''get_game_data'' tok)"

definition effects_of :: "string \<Rightarrow> Event \<Rightarrow> HookState \<Rightarrow> Effect list" where
  "effects_of tok ev h =
     (case ev of
        Connect \<Rightarrow>
          (if tok \<noteq> [] then
             [Emit ''display:connected'' tok, Emit ''join_display_room'' tok,
              After 500 (Emit ''get_display_status'' tok)]
           else [])
      | PlacedBetsUpdated pbs i \<Rightarrow> [DispatchPlacedBetsUpdated pbs]
      | GameDataUpdated d \<Rightarrow>
          (if truthy_str (msgId d) then
             (case fld (msgGameData d) gdPlacedBetCartelas of
                None \<Rightarrow> []
              | Some pbs \<Rightarrow> [DispatchPlacedBetsUpdated (mapKeys pbs)]) @
             (if msgStatus d = Some ''active'' then [CloseCartelas] else [])
           else [])
      | GameComprehensiveReset i \<Rightarrow>
          CloseCartelas # (if truthy_str i then [After 1000 Reload] else [])
      | GameStart i e \<Rightarrow>
          (if truthy_str i then close_and_flag tok @ [request_game_data tok] else [])
      | GameEnd \<Rightarrow> [request_game_data tok]
      | GameCreated d \<Rightarrow> leave_previous (prevGameIdRef h) (crGameId d) @ join_game (crGameId d)
      | GameStarted i \<Rightarrow> leave_previous (prevGameIdRef h) i @ close_and_flag tok @ join_game i
      | GameResumed \<Rightarrow> [request_game_data tok]
      | GameReset d \<Rightarrow> [request_game_data tok]
      | GameEnded \<Rightarrow> [CloseCartelas, request_game_data tok]
      | NumberDrawn n cs \<Rightarrow>
          (case n of
             None \<Rightarrow> []
           | Some k \<Rightarrow> if k \<noteq> 0 then [PlayNumberSound k] else []) @
          [After 2000 ClearIsDrawing]
      | GameUpdate s c w t \<Rightarrow> [request_game_data tok]
      | GameDataResponse d \<Rightarrow>
          (if truthy_str (msgId d) \<and> msgStatus d = Some ''active'' then [CloseCartelas]
           else [])
      | CartelaVerified d \<Rightarrow>
          (if vStatus d = ''won'' then [PlayWinSound]
           else if vStatus d = ''lost'' then [PlayLostSound]
           else [])
      | CloseCartelasEvent \<Rightarrow> [CloseCartelas, CloseCartelas]
      | RefreshPages msg sid \<Rightarrow>
          (case msg of
             None \<Rightarrow> []
           | Some m \<Rightarrow>
               if m \<noteq> [] \<and> str_includes m ''Game ended'' then [Reload]
               else if m \<noteq> [] \<and> str_includes m ''Verification modal closed'' then [Reload]
               else []) @
          [After 1000 Reload]
      | VerificationModalClosed sid \<Rightarrow> [Reload]
      | GameCompleted i wp \<Rightarrow>
          (case wp of None \<Rightarrow> [UncaughtTypeError] | Some winningPatterns \<Rightarrow> [PlayWinSound])
      | CartelasCleared sid \<Rightarrow> [DispatchCartelasCleared, After 50 Reload]
      | _ \<Rightarrow> [])"

text \<open>One inbound event: the state after it and the effects its handlers issue.\<close>

definition apply_event :: "string \<Rightarrow> Event \<Rightarrow> HookState \<Rightarrow> HookState \<times> Effect list" where
  "apply_event tok ev h =
     (reduce_cells tok ev
        (h\<lparr> gameState := reduce_game ev (gameState h),
            displayState := reduce_display tok ev (displayState h) \<rparr>),
      effects_of tok ev h)"

text \<open>A sequence of events, folded from the left.\<close>

definition reduce_games :: "Event list \<Rightarrow> GameState \<Rightarrow> GameState" where
  \<comment> \<open>the game state alone after a sequence of events\<close>
  "reduce_games evs g = foldl (\<lambda>s ev. reduce_game ev s) g evs"

section \<open>Opening the connection\<close>

text \<open>
  \<^verbatim>\<open>initializeSocket\<close> returns the socket or \<^verbatim>\<open>null\<close> and writes the hook's cells
  on the way. \<^verbatim>\<open>io(...)\<close> may throw; whether it does is the parameter \<open>ioThrows\<close>.
\<close>

definition initializeSocket ::
  "bool \<Rightarrow> string option \<Rightarrow> HookState \<Rightarrow> HookState \<times> SocketInstance option" where
  "initializeSocket ioThrows displayToken h =
     (case displayToken of
        None \<Rightarrow>
          (h\<lparr> connectionError := Some NO_TOKEN, isConnected := False, isLoading := False \<rparr>,
           None)
      | Some t \<Rightarrow>
          if t = [] then
            (h\<lparr> connectionError := Some NO_TOKEN, isConnected := False, isLoading := False \<rparr>,
             None)
          else if ioThrows then
            (h\<lparr> connectionError := Some INITIALIZATION_FAILED, isLoading := False \<rparr>, None)
          else
            (h, Some \<lparr> queryDisplayToken = t, queryS = t, queryType = ''display'',
                       timeout = SOCKET_TIMEOUT, reconnection = True,
                       reconnectionAttempts = RECONNECTION_ATTEMPTS,
                       reconnectionDelay = RECONNECTION_DELAY \<rparr>))"

text \<open>
  The effect of \<^verbatim>\<open>useSocket\<close> that opens the connection (useSocket.ts, line 1391). It
  returns at once when the token is missing; otherwise it calls
  \<^verbatim>\<open>initializeSocket\<close> and, given a socket, registers the listeners and stores it.
\<close>

definition connection_effect :: "bool \<Rightarrow> string option \<Rightarrow> HookState \<Rightarrow> HookState" where
  "connection_effect ioThrows displayToken h =
     (if \<not> truthy_str displayToken then h
      else
        (case initializeSocket ioThrows displayToken h of
           (h1, None) \<Rightarrow> h1
         | (h1, Some socketInstance) \<Rightarrow> h1\<lparr> socket := Some socketInstance \<rparr>))"

section \<open>The cartela overlay of the display page\<close>

text \<open>
  \<^verbatim>\<open>DisplayPage\<close> keeps the overlay's state: \<^verbatim>\<open>showCartelas\<close>, the cartelas on
  offer, its own copy of the selection, and the placed bets (a \<^verbatim>\<open>Map\<close> of which the
  effects read only the size; here the list of its keys). Three entries of
  \<^verbatim>\<open>localStorage\<close> belong to it: the saved overlay state
  \<^verbatim>\<open>cartela_display_<token>\<close> and the flags \<^verbatim>\<open>..._just_started\<close> and
  \<^verbatim>\<open>..._was_active\<close>.
\<close>

record PageState =
  displayToken :: "string option"
  showCartelas :: bool
  availableCartelas :: "int list"
  pageSelectedCartelas :: "int list"
  placedBets :: "int list"
  savedCartelaState :: "(bool \<times> int list) option"
  justStarted :: "string option"
  wasActive :: "string option"

definition saveCartelaState :: "bool \<Rightarrow> int list \<Rightarrow> PageState \<Rightarrow> PageState" where
  "saveCartelaState sh cs p =
     (if truthy_str (displayToken p) then p\<lparr> savedCartelaState := Some (sh, cs) \<rparr> else p)"

definition isTerminalStatus :: "string option \<Rightarrow> bool" where
  \<comment> \<open>\<^verbatim>\<open>status === 'completed' || status === 'finished' || status === 'cancelled'\<close>\<close>
  "isTerminalStatus s =
     (s = Some ''completed'' \<or> s = Some ''finished'' \<or> s = Some ''cancelled'')"

text \<open>
  Each effect is given as the page state that results when the updates it queues are
  applied to the state of the render it ran in.

  The effect that follows \<^verbatim>\<open>gameState.selectedCartelas\<close> (part_000, line 249).
\<close>

definition sync_selected_effect :: "GameState \<Rightarrow> PageState \<Rightarrow> PageState" where
  "sync_selected_effect gs p =
     (case selectedCartelas gs of
        None \<Rightarrow> p
      | Some sel \<Rightarrow>
          (let p1 = p\<lparr> pageSelectedCartelas := sel \<rparr>;
               shouldShowCartelas = (length sel > 0 \<or> length (placedBets p) > 0)
           in if shouldShowCartelas then
                (if gameStatus gs = Some ''waiting'' then
                   (if \<not> truthy_str (justStarted p) then
                      saveCartelaState True sel (p1\<lparr> showCartelas := True \<rparr>)
                    else p1\<lparr> justStarted := None \<rparr>)
                 else p1)
              else saveCartelaState False [] (p1\<lparr> showCartelas := False \<rparr>)))"

text \<open>The effect that closes the overlay on a terminal status (part_000, line 295).\<close>

definition terminal_close_effect :: "GameState \<Rightarrow> PageState \<Rightarrow> PageState" where
  "terminal_close_effect gs p =
     (if gameStatus gs \<noteq> Some ''waiting'' \<and> showCartelas p then
        (if isTerminalStatus (gameStatus gs) then
           saveCartelaState False []
             (p\<lparr> showCartelas := False, pageSelectedCartelas := [],
                 availableCartelas := [] \<rparr>)
         else p)
      else p)"

text \<open>
  The effect that clears the overlay when a game that was active is waiting again
  (part_000, line 312).
\<close>

definition game_end_clear_effect :: "GameState \<Rightarrow> PageState \<Rightarrow> PageState" where
  "game_end_clear_effect gs p =
     (if gameStatus gs = Some ''waiting'' \<and> showCartelas p then
        (if wasActive p = Some ''true'' then
           (saveCartelaState False []
              (p\<lparr> showCartelas := False, pageSelectedCartelas := [],
                  availableCartelas := [] \<rparr>))\<lparr> wasActive := None \<rparr>
         else p)
      else if gameStatus gs = Some ''active'' then p\<lparr> wasActive := Some ''true'' \<rparr>
      else p)"

definition selection :: "GameState \<Rightarrow> int list" where
  \<comment> \<open>\<^verbatim>\<open>prev.selectedCartelas || []\<close>\<close>
  "selection g = or_list (selectedCartelas g) []"

section \<open>Names used in the statements\<close>

definition financialAggregates ::
  "((GameState \<Rightarrow> int option) \<times> (GameData \<Rightarrow> int option)) list" where
  \<comment> \<open>the financial aggregates of the game state, each with the \<^verbatim>\<open>gameData\<close> field that
      carries it\<close>
  "financialAggregates =
     [(stack, gdStack), (totalStack, gdTotalStack), (totalWinStack, gdTotalWinStack),
      (totalShopMargin, gdTotalShopMargin), (totalSystemFee, gdTotalSystemFee),
      (netPrizePool, gdNetPrizePool), (netShopProfit, gdNetShopProfit)]"

definition noGameData :: GameData where
  \<comment> \<open>a \<^verbatim>\<open>gameData\<close> object with no field\<close>
  "noGameData =
     \<lparr> gdCartelas = None, gdStack = None, gdTotalStack = None, gdTotalWinStack = None,
       gdTotalShopMargin = None, gdTotalSystemFee = None, gdNetPrizePool = None,
       gdNetShopProfit = None, gdStatus = None, gdCalledNumbers = None,
       gdCurrentNumber = None, gdPlacedBetCartelas = None \<rparr>"

definition plainReset :: "string option \<Rightarrow> GameResetData" where
  \<comment> \<open>a \<^verbatim>\<open>game_reset\<close> payload with a game id and no other field\<close>
  "plainReset i =
     \<lparr> rsGameId = i, rsCalledNumbers = None, rsCartelas = None, rsTotalStack = None,
       rsTotalWinStack = None \<rparr>"

definition directGameId :: "Event \<Rightarrow> string option option" where
  \<comment> \<open>for the events whose handlers assign \<^verbatim>\<open>gameId\<close> from the payload without the
      replacement rule: the value they assign\<close>
  "directGameId ev =
     (case ev of
        GameCleared i \<Rightarrow> Some (if truthy_str i then i else None)
      | GameComprehensiveReset i \<Rightarrow> Some (if truthy_str i then i else None)
      | GameReset d \<Rightarrow> Some (rsGameId d)
      | GameCreated d \<Rightarrow> Some (crGameId d)
      | GameStarted i \<Rightarrow> Some i
      | GameCompleted i wp \<Rightarrow> (case wp of None \<Rightarrow> None | Some ps \<Rightarrow> Some i)
      | EndGame i sid \<Rightarrow> Some i
      | _ \<Rightarrow> None)"

definition suppliedGameId :: "Event \<Rightarrow> string option" where
  \<comment> \<open>for the other events: the game id the payload carries, if it carries one\<close>
  "suppliedGameId ev =
     (case ev of
        PlacedBetsUpdated pbs i \<Rightarrow> i
      | GameDataUpdated d \<Rightarrow> msgId d
      | GameStatusUpdated s i \<Rightarrow> i
      | GameStart i e \<Rightarrow> i
      | GameIdUpdated i \<Rightarrow> i
      | GameDataResponse d \<Rightarrow> msgId d
      | GameSessionInfo i sid s \<Rightarrow> i
      | CashierJoinedRoom i \<Rightarrow> i
      | _ \<Rightarrow> None)"

definition openPage :: PageState where
  \<comment> \<open>a page whose overlay is visible, with no selection and no placed bet\<close>
  "openPage =
     \<lparr> displayToken = Some ''Y'', showCartelas = True, availableCartelas = [1, 2, 3],
       pageSelectedCartelas = [], placedBets = [], savedCartelaState = Some (True, []),
       justStarted = None, wasActive = None \<rparr>"

definition sampleVerification :: VerificationData where
  \<comment> \<open>a verification result, as \<^verbatim>\<open>cartela_verified\<close> delivers it\<close>
  "sampleVerification =
     \<lparr> vCartelaId = 5, vTicketNumber = ''T-1'', vGameId = ''G1'', vStatus = ''won'',
       vCartelaGrid = [], vMatchedNumbers = [], vDrawnNumbers = [],
       vWinningPatternDetails = None, vGameProgress = 0, vTotalCalledNumbers = 0,
       vIsLocked = None, vOriginalStatus = None \<rparr>"

definition modalOpenState :: HookState where
  \<comment> \<open>the hook's state after \<^verbatim>\<open>cartela_verified\<close> on the initial state\<close>
  "modalOpenState = fst (apply_event ''Y'' (CartelaVerified sampleVerification) initialHookState)"

section \<open>Proof tools\<close>

lemmas js_defs = truthy_num_def truthy_str_def or_num_def or_str_def or_list_def nullish_def
  fld_def column_or_def

lemmas game_handler_defs = game_cleared_handler_def game_reset_handler1_def
  game_reset_handler2_def placed_bets_updated_handler1_def placed_bets_updated_handler2_def
  bets_placed_handler_def game_data_updated_handler1_def game_status_updated_handler_def
  game_comprehensive_reset_handler_def game_start_handler_def number_called_handler_def
  game_end_handler_def game_created_handler_def game_started_handler_def
  game_paused_handler_def game_resumed_handler_def game_ended_handler_def
  number_drawn_handler_def game_update_handler_def game_data_updated_handler2_def
  game_id_updated_handler_def game_data_response_handler_def game_session_info_handler_def
  cashier_joined_room_handler_def game_completed_handler_def end_game_handler_def
  cartela_selected_handler_def cartela_deselected_handler_def cartelas_cleared_handler_def
  cartela_selections_response_handler_def ticket_cancelled_handler_def

lemmas page_defs = sync_selected_effect_def terminal_close_effect_def
  game_end_clear_effect_def saveCartelaState_def isTerminalStatus_def

lemma reduce_games_append:
  "reduce_games (xs @ ys) g = reduce_games ys (reduce_games xs g)"
  by (simp add: reduce_games_def)

section \<open>Financial aggregates across a reset\<close>

text \<open>
  The second \<^verbatim>\<open>game_reset\<close> handler, taken alone, keeps an aggregate that the
  payload does not supply, as its comment says (\<^verbatim>\<open>Don't clear betting data on game
  reset\<close>).
\<close>

lemma game_reset_handler2_preserves:
  "rsTotalStack d = None \<Longrightarrow> totalStack (game_reset_handler2 d g) = totalStack g"
  by (simp add: game_reset_handler2_def nullish_def)

text \<open>
  The other reset-class events keep every financial aggregate: \<^verbatim>\<open>game_ended\<close> and
  \<^verbatim>\<open>game_comprehensive_reset\<close>.
\<close>

lemma sibling_resets_keep_aggregates:
  "\<forall>(f, pf) \<in> set financialAggregates.
     f (reduce_game GameEnded g) = f g \<and> f (reduce_game (GameComprehensiveReset i) g) = f g"
  by (simp add: financialAggregates_def reduce_game_def game_ended_handler_def
      game_comprehensive_reset_handler_def)

text \<open>
  C1. The claim: a \<^verbatim>\<open>game_reset\<close> event whose payload carries no financial field
  leaves \<open>totalStack = 500\<close> as it was, and a later \<^verbatim>\<open>bets_placed\<close> with
  \<open>totalStack: 650\<close> sets it to 650. The code does the second and not the first. Both
  \<^verbatim>\<open>game_reset\<close> handlers run on the event, and the one registered first sets
  \<open>totalStack\<close>, \<open>totalWinStack\<close>, \<open>totalShopMargin\<close>, \<open>totalSystemFee\<close> and
  \<open>netPrizePool\<close> to 0 before the second one gets to keep them: for every state, after a
  \<^verbatim>\<open>game_reset\<close> that supplies no \<open>totalStack\<close> the \<open>totalStack\<close> is 0 (likewise
  \<open>totalWinStack\<close>), the other three are 0 whatever the payload, and only \<open>stack\<close> and
  \<open>netShopProfit\<close> are kept. \<^verbatim>\<open>bets_placed\<close> with \<open>totalStack: 650\<close> gives 650.
\<close>

theorem game_reset_zeroes_aggregates:
  "totalStack (reduce_game (GameReset (d\<lparr> rsTotalStack := None \<rparr>)) g) = Some 0 \<and>
   totalWinStack (reduce_game (GameReset (d\<lparr> rsTotalWinStack := None \<rparr>)) g) = Some 0 \<and>
   totalShopMargin (reduce_game (GameReset d) g) = Some 0 \<and>
   totalSystemFee (reduce_game (GameReset d) g) = Some 0 \<and>
   netPrizePool (reduce_game (GameReset d) g) = Some 0 \<and>
   stack (reduce_game (GameReset d) g) = stack g \<and>
   netShopProfit (reduce_game (GameReset d) g) = netShopProfit g \<and>
   totalStack (reduce_game (BetsPlaced (Some (gd\<lparr> gdTotalStack := Some 650 \<rparr>))) g2) = Some 650"
  by (simp add: reduce_game_def game_reset_handler1_def game_reset_handler2_def
      bets_placed_handler_def js_defs)

text \<open>The same at the state of the claim: 500 becomes 0, and then 650.\<close>

theorem game_reset_zeroes_aggregates_witness:
  "totalStack (initialGameState\<lparr> totalStack := Some 500 \<rparr>) = Some 500 \<and>
   totalStack (reduce_games [GameReset (plainReset (Some ''G2''))]
      (initialGameState\<lparr> totalStack := Some 500 \<rparr>)) = Some 0 \<and>
   totalStack (reduce_games [GameReset (plainReset (Some ''G2'')),
        BetsPlaced (Some (noGameData\<lparr> gdTotalStack := Some 650 \<rparr>))]
      (initialGameState\<lparr> totalStack := Some 500 \<rparr>)) = Some 650"
  using game_reset_zeroes_aggregates
    [of "plainReset (Some ''G2'')" "initialGameState\<lparr> totalStack := Some 500 \<rparr>" noGameData
        "reduce_game (GameReset (plainReset (Some ''G2'')))
           (initialGameState\<lparr> totalStack := Some 500 \<rparr>)"]
  by (simp add: reduce_games_def plainReset_def)

section \<open>A number drawn twice\<close>

text \<open>
  C2, as the claim states it, fails: \<^verbatim>\<open>number_drawn\<close> with the payload
  \<open>{number: 37}\<close> does not append, so on the initial state 37 is in \<open>calledNumbers\<close>
  zero times after two applications; and the legacy event \<^verbatim>\<open>number_called\<close> appends
  on every application, so there 37 is in it twice.
\<close>

theorem number_drawn_twice_counterexample:
  "count_list (calledNumbers (reduce_games
       [NumberDrawn (Some 37) None, NumberDrawn (Some 37) None] initialGameState)) 37 \<noteq> 1 \<and>
   count_list (calledNumbers (reduce_games
       [NumberCalled (Some 37), NumberCalled (Some 37)] initialGameState)) 37 \<noteq> 1"
  by (simp add: reduce_games_def reduce_game_def number_drawn_handler_def
      number_called_handler_def js_defs initialGameState_def)

text \<open>
  C2, amended. For every state of the hook and every \<^verbatim>\<open>number_drawn\<close> payload,
  applying the event a second time leaves the state the first application produced.
  After \<^verbatim>\<open>number_drawn\<close> with number 37, \<open>currentNumber\<close> is 37 and \<open>currentColumn\<close>
  is N. The handler never appends: \<open>calledNumbers\<close> becomes the payload's
  \<open>calledNumbers\<close> when the payload has one and stays as it was otherwise, so 37 is in
  it as often as it is in that list.
\<close>

theorem number_drawn_idempotent:
  "fst (apply_event tok (NumberDrawn n cs) (fst (apply_event tok (NumberDrawn n cs) h))) =
     fst (apply_event tok (NumberDrawn n cs) h) \<and>
   currentNumber (reduce_game (NumberDrawn (Some 37) cs) g) = Some 37 \<and>
   currentColumn (reduce_game (NumberDrawn (Some 37) cs) g) = Some ''N'' \<and>
   calledNumbers (reduce_game (NumberDrawn n cs) g) =
     (case cs of None \<Rightarrow> calledNumbers g | Some xs \<Rightarrow> xs)"
  by (simp add: apply_event_def reduce_cells_def reduce_display_def reduce_game_def
      number_drawn_handler_def js_defs getColumnForNumber_def split: option.splits)

theorem number_drawn_idempotent_witness:
  "calledNumbers (reduce_games
      [NumberDrawn (Some 37) (Some [12, 37]), NumberDrawn (Some 37) (Some [12, 37])]
      initialGameState) = [12, 37] \<and>
   count_list (calledNumbers (reduce_games
      [NumberDrawn (Some 37) (Some [12, 37]), NumberDrawn (Some 37) (Some [12, 37])]
      initialGameState)) 37 = 1 \<and>
   currentColumn (reduce_games
      [NumberDrawn (Some 37) (Some [12, 37]), NumberDrawn (Some 37) (Some [12, 37])]
      initialGameState) = Some ''N''"
  using number_drawn_idempotent [of _ "Some 37" "Some [12, 37]" _
      "reduce_game (NumberDrawn (Some 37) (Some [12, 37])) initialGameState"]
  by (simp add: reduce_games_def)

section \<open>Replacing the game id\<close>

lemma direct_gameId:
  "directGameId ev = Some v \<Longrightarrow> gameId (reduce_game ev g) = v"
  by (cases ev)
     (auto simp add: directGameId_def reduce_game_def game_handler_defs js_defs
        split: option.splits)

lemma guarded_gameId:
  assumes "directGameId ev = None" and "truthy_str (gameId g)"
  shows "truthy_str (gameId (reduce_game ev g)) \<and>
         (gameId (reduce_game ev g) \<noteq> gameId g \<longrightarrow>
            truthy_str (suppliedGameId ev) \<and> gameId (reduce_game ev g) = suppliedGameId ev)"
  using assms
  by (cases ev)
     (auto simp add: directGameId_def suppliedGameId_def reduce_game_def game_handler_defs
        shouldUpdateGameId_def Let_def js_defs split: option.splits if_splits)

text \<open>
  C3, as the claim states it, fails: with the game id set to G1, a \<^verbatim>\<open>game_cleared\<close>
  event without an id leaves it unset, and so does a \<^verbatim>\<open>game_comprehensive_reset\<close>
  event without a new id.
\<close>

theorem game_cleared_counterexample:
  "truthy_str (gameId (initialGameState\<lparr> gameId := Some ''G1'' \<rparr>)) \<and>
   gameId (reduce_game (GameCleared None) (initialGameState\<lparr> gameId := Some ''G1'' \<rparr>)) = None \<and>
   gameId (reduce_game (GameComprehensiveReset None)
      (initialGameState\<lparr> gameId := Some ''G1'' \<rparr>)) = None"
  by (simp add: reduce_game_def game_cleared_handler_def
      game_comprehensive_reset_handler_def js_defs initialGameState_def)

text \<open>
  C3, amended. Seven events assign the game id from the payload as it comes:
  \<^verbatim>\<open>game_cleared\<close> and \<^verbatim>\<open>game_comprehensive_reset\<close> set it to the payload's id when
  that is present and non-empty and to unset otherwise, and \<^verbatim>\<open>game_reset\<close>,
  \<^verbatim>\<open>game:created\<close>, \<^verbatim>\<open>game_started\<close>, \<^verbatim>\<open>end_game\<close> and, when its payload
  carries the \<open>winningPatterns\<close> array, \<^verbatim>\<open>game_completed\<close> store the payload's id,
  missing or not. For every other event (\<^verbatim>\<open>game_completed\<close> without
  \<open>winningPatterns\<close> is one: its handler stops before it writes) and every state
  whose game id is set, the game id is still set afterwards, and it has changed only
  if the event supplies a present id, which is then the new one.
\<close>

theorem gameId_replacement:
  "(directGameId ev = Some v \<longrightarrow> gameId (reduce_game ev g) = v) \<and>
   (directGameId ev = None \<and> truthy_str (gameId g) \<longrightarrow>
      truthy_str (gameId (reduce_game ev g)) \<and>
      (gameId (reduce_game ev g) \<noteq> gameId g \<longrightarrow>
         truthy_str (suppliedGameId ev) \<and> gameId (reduce_game ev g) = suppliedGameId ev)) \<and>
   gameId (reduce_game (GameCleared i) g) = (if truthy_str i then i else None) \<and>
   gameId (reduce_game (GameComprehensiveReset i) g) = (if truthy_str i then i else None)"
  using direct_gameId [of ev v g] guarded_gameId [of ev g]
    direct_gameId [of "GameCleared i" _ g] direct_gameId [of "GameComprehensiveReset i" _ g]
  by (simp add: directGameId_def)

theorem gameId_replacement_witness:
  "directGameId (GameSessionInfo (Some ''G2'') None None) = None \<and>
   truthy_str (gameId (initialGameState\<lparr> gameId := Some ''G1'' \<rparr>)) \<and>
   gameId (reduce_game (GameSessionInfo (Some ''G2'') None None)
      (initialGameState\<lparr> gameId := Some ''G1'' \<rparr>)) = Some ''G2'' \<and>
   directGameId (GameSessionInfo None None None) = None \<and>
   gameId (reduce_game (GameSessionInfo None None None)
      (initialGameState\<lparr> gameId := Some ''G1'' \<rparr>)) = Some ''G1'' \<and>
   directGameId (EndGame None (Some ''Y'')) = Some None \<and>
   gameId (reduce_game (EndGame None (Some ''Y''))
      (initialGameState\<lparr> gameId := Some ''G1'' \<rparr>)) = None \<and>
   directGameId (GameCompleted (Some ''G2'') None) = None \<and>
   gameId (reduce_game (GameCompleted (Some ''G2'') None)
      (initialGameState\<lparr> gameId := Some ''G1'' \<rparr>)) = Some ''G1'' \<and>
   directGameId (GameCompleted (Some ''G2'') (Some [''row''])) = Some (Some ''G2'') \<and>
   gameId (reduce_game (GameCompleted (Some ''G2'') (Some [''row'']))
      (initialGameState\<lparr> gameId := Some ''G1'' \<rparr>)) = Some ''G2''"
  using gameId_replacement [of "GameSessionInfo (Some ''G2'') None None" None
        "initialGameState\<lparr> gameId := Some ''G1'' \<rparr>" None]
    gameId_replacement [of "GameSessionInfo None None None" None
        "initialGameState\<lparr> gameId := Some ''G1'' \<rparr>" None]
    gameId_replacement [of "EndGame None (Some ''Y'')" None
        "initialGameState\<lparr> gameId := Some ''G1'' \<rparr>" None]
    gameId_replacement [of "GameCompleted (Some ''G2'') None" None
        "initialGameState\<lparr> gameId := Some ''G1'' \<rparr>" None]
    gameId_replacement [of "GameCompleted (Some ''G2'') (Some [''row''])" "Some ''G2''"
        "initialGameState\<lparr> gameId := Some ''G1'' \<rparr>" None]
  by (simp add: directGameId_def suppliedGameId_def truthy_str_def initialGameState_def
      reduce_game_def game_session_info_handler_def shouldUpdateGameId_def
      end_game_handler_def game_completed_handler_def)

section \<open>Events of another session\<close>

text \<open>
  Other events carry a session id too, and their handlers never read it: what they do
  is the same for every session id.
\<close>

lemma session_id_ignored:
  "apply_event tok (EndGame i sid) h = apply_event tok (EndGame i sid') h \<and>
   apply_event tok (TicketCancelled c sid) h = apply_event tok (TicketCancelled c sid') h \<and>
   apply_event tok (CartelasCleared sid) h = apply_event tok (CartelasCleared sid') h \<and>
   apply_event tok (RefreshPages m sid) h = apply_event tok (RefreshPages m sid') h \<and>
   apply_event tok (DisplayShuffleAnimation sid a) h =
     apply_event tok (DisplayShuffleAnimation sid' a) h \<and>
   apply_event tok (DisplayRoomJoined sid) h = apply_event tok (DisplayRoomJoined sid') h \<and>
   apply_event tok (VerificationModalClosed sid) h =
     apply_event tok (VerificationModalClosed sid') h"
  by (simp add: apply_event_def effects_of_def reduce_cells_def reduce_display_def
      reduce_game_def)

text \<open>
  C4, as the claim states it, fails: with the token Y,
  \<^verbatim>\<open>verification_modal_closed\<close> with \<open>sessionId: X\<close> is not a no-op, it reloads the
  page; and \<^verbatim>\<open>cartelas_cleared\<close> with \<open>sessionId: X\<close> empties the selection.
\<close>

theorem stale_session_counterexample:
  "apply_event ''Y'' (VerificationModalClosed (Some ''X'')) modalOpenState \<noteq>
     (modalOpenState, []) \<and>
   snd (apply_event ''Y'' (VerificationModalClosed (Some ''X'')) modalOpenState) = [Reload] \<and>
   selectedCartelas (gameState (fst (apply_event ''Y'' (CartelasCleared (Some ''X''))
      (initialHookState\<lparr> gameState := initialGameState\<lparr> selectedCartelas := Some [5] \<rparr> \<rparr>))))
     = Some []"
  by (simp add: apply_event_def effects_of_def reduce_cells_def reduce_game_def
      cartelas_cleared_handler_def)

text \<open>
  C4, amended. The four events whose handlers compare the session id,
  \<^verbatim>\<open>close-verification-modal\<close>, \<^verbatim>\<open>close-verification-modal-display\<close>,
  \<^verbatim>\<open>connection_status_update\<close> and \<^verbatim>\<open>display:connection_status\<close>, are applied only
  if it equals the display token: with any other session id, or none, they leave the
  whole state of the hook as it is and issue no effect. In particular
  \<^verbatim>\<open>close-verification-modal\<close> with \<open>sessionId: X\<close> is a no-op when the token is Y.
  With the token's own session id \<^verbatim>\<open>close-verification-modal\<close> closes the modal and
  drops the verification data.
\<close>

theorem session_guard:
  "(sid \<noteq> Some tok \<longrightarrow>
      apply_event tok (CloseVerificationModal sid) h = (h, []) \<and>
      apply_event tok (CloseVerificationModalDisplay sid) h = (h, []) \<and>
      apply_event tok (ConnectionStatusUpdate sid b) h = (h, []) \<and>
      apply_event tok (DisplayConnectionStatus sid b) h = (h, [])) \<and>
   showVerificationModal (displayState
      (fst (apply_event tok (CloseVerificationModal (Some tok)) h))) = False \<and>
   modalPersistent (displayState
      (fst (apply_event tok (CloseVerificationModal (Some tok)) h))) = False \<and>
   verificationData (fst (apply_event tok (CloseVerificationModal (Some tok)) h)) = None"
  by (simp add: apply_event_def effects_of_def reduce_cells_def reduce_display_def
      reduce_game_def)

theorem session_guard_witness:
  "Some ''X'' \<noteq> Some ''Y'' \<and>
   showVerificationModal (displayState modalOpenState) \<and>
   verificationData modalOpenState = Some sampleVerification \<and>
   apply_event ''Y'' (CloseVerificationModal (Some ''X'')) modalOpenState =
     (modalOpenState, []) \<and>
   verificationData (fst (apply_event ''Y'' (CloseVerificationModal (Some ''Y''))
     modalOpenState)) = None"
  using session_guard [of "Some ''X''" "''Y''" modalOpenState None]
  by (simp add: modalOpenState_def apply_event_def reduce_cells_def reduce_display_def)

section \<open>The status after the end of a game\<close>

text \<open>
  C5, as the claim states it, fails: \<^verbatim>\<open>game_ended\<close> on an active game gives the
  status \<open>waiting\<close>, which is not terminal.
\<close>

theorem game_ended_counterexample:
  "\<not> isTerminalStatus (gameStatus (reduce_game GameEnded
        (initialGameState\<lparr> gameStatus := Some ''active'' \<rparr>)))"
  by (simp add: reduce_game_def game_ended_handler_def isTerminalStatus_def
      initialGameState_def)

text \<open>
  Without the \<open>winningPatterns\<close> array \<^verbatim>\<open>game_completed\<close> changes nothing: the
  handler throws at its log line, before the update and before the win sound.
\<close>

lemma game_completed_without_patterns:
  "apply_event tok (GameCompleted i None) h = (h, [UncaughtTypeError])"
  by (simp add: apply_event_def effects_of_def reduce_cells_def reduce_display_def
      reduce_game_def game_completed_handler_def)

text \<open>
  C5, amended. For every game state, \<^verbatim>\<open>end_game\<close> sets the status to \<open>completed\<close>,
  a terminal status, and so does \<^verbatim>\<open>game_completed\<close> when its payload carries the
  \<open>winningPatterns\<close> array that the handler reads; \<^verbatim>\<open>game_ended\<close> sets the status
  to \<open>waiting\<close>, ready for the next round, which is not terminal.
\<close>

theorem end_events_status:
  "gameStatus (reduce_game (EndGame i sid) g) = Some ''completed'' \<and>
   isTerminalStatus (gameStatus (reduce_game (EndGame i sid) g)) \<and>
   gameStatus (reduce_game (GameCompleted i (Some ps)) g) = Some ''completed'' \<and>
   isTerminalStatus (gameStatus (reduce_game (GameCompleted i (Some ps)) g)) \<and>
   gameStatus (reduce_game GameEnded g) = Some ''waiting'' \<and>
   \<not> isTerminalStatus (gameStatus (reduce_game GameEnded g))"
  by (simp add: reduce_game_def game_ended_handler_def end_game_handler_def
      game_completed_handler_def isTerminalStatus_def)

section \<open>Selecting and deselecting a cartela\<close>

text \<open>
  The selection is a list, and selecting appends to it: the same id selected \<open>n\<close>
  times is in it \<open>n\<close> more times.
\<close>

lemma selection_after_selects:
  "selection (reduce_games (replicate n (CartelaSelected c)) g) = selection g @ replicate n c"
proof (induction n arbitrary: g)
  case 0
  then show ?case by (simp add: reduce_games_def)
next
  case (Suc n)
  have "selection (reduce_game (CartelaSelected c) g) = selection g @ [c]"
    by (simp add: reduce_game_def cartela_selected_handler_def selection_def or_list_def)
  with Suc show ?case
    by (simp add: reduce_games_def replicate_app_Cons_same)
qed

lemma selection_after_deselect:
  "selection (reduce_game (CartelaDeselected c) g) = filter (\<lambda>i. i \<noteq> c) (selection g)"
  by (simp add: reduce_game_def cartela_deselected_handler_def selection_def or_list_def)

text \<open>
  C6. For every game state, after \<^verbatim>\<open>cartela_selected\<close> 5, \<^verbatim>\<open>cartela_selected\<close> 5,
  \<^verbatim>\<open>cartela_deselected\<close> 5 the selection does not contain 5: deselecting removes
  every occurrence, so one deselect is enough however often the id was selected. The
  same holds for any id \<open>c\<close> and any number \<open>n\<close> of selects: what is left is the
  selection from before, without \<open>c\<close>.
\<close>

theorem select_twice_deselect_once:
  "5 \<notin> set (selection (reduce_games
       [CartelaSelected 5, CartelaSelected 5, CartelaDeselected 5] g)) \<and>
   selectedCartelas (reduce_games
       [CartelaSelected 5, CartelaSelected 5, CartelaDeselected 5] g) =
     Some (filter (\<lambda>i. i \<noteq> 5) (selection g)) \<and>
   c \<notin> set (selection (reduce_games
       (replicate n (CartelaSelected c) @ [CartelaDeselected c]) g)) \<and>
   selection (reduce_games (replicate n (CartelaSelected c) @ [CartelaDeselected c]) g) =
     filter (\<lambda>i. i \<noteq> c) (selection g)"
proof -
  have one: "reduce_games [CartelaDeselected c] s = reduce_game (CartelaDeselected c) s"
    for s and c :: int
    by (simp add: reduce_games_def)
  have general: "selection (reduce_games
       (replicate n (CartelaSelected c) @ [CartelaDeselected c]) g) =
     filter (\<lambda>i. i \<noteq> c) (selection g)" for n and c :: int
    by (simp add: reduce_games_append one selection_after_deselect selection_after_selects)
  have list5: "[CartelaSelected 5, CartelaSelected 5, CartelaDeselected 5] =
        replicate 2 (CartelaSelected 5) @ [CartelaDeselected 5]"
    by (simp add: numeral_2_eq_2)
  have some: "selectedCartelas (reduce_game (CartelaDeselected c) s) =
      Some (selection (reduce_game (CartelaDeselected c) s))" for s and c :: int
    by (simp add: reduce_game_def cartela_deselected_handler_def selection_def or_list_def)
  have five: "selection (reduce_games
       [CartelaSelected 5, CartelaSelected 5, CartelaDeselected 5] g) =
     filter (\<lambda>i. i \<noteq> 5) (selection g)"
    unfolding list5 by (rule general)
  have five_some: "selectedCartelas (reduce_games
       [CartelaSelected 5, CartelaSelected 5, CartelaDeselected 5] g) =
     Some (filter (\<lambda>i. i \<noteq> 5) (selection g))"
  proof -
    have "reduce_games [CartelaSelected 5, CartelaSelected 5, CartelaDeselected 5] g =
          reduce_game (CartelaDeselected 5)
            (reduce_games (replicate 2 (CartelaSelected 5)) g)"
      unfolding list5 by (simp add: reduce_games_append one)
    then show ?thesis
      using five some [of 5 "reduce_games (replicate 2 (CartelaSelected 5)) g"] by simp
  qed
  show ?thesis
    using five five_some general [of n c] by simp
qed

section \<open>Gating the cartela overlay\<close>

text \<open>
  C7, as the claim states it, fails in its last part: with the status \<open>active\<close>, an
  overlay that is visible does not stay visible when the selection and the placed bets
  are both empty; the effect that follows the selection closes it.
\<close>

theorem active_close_counterexample:
  "showCartelas openPage \<and>
   \<not> showCartelas (sync_selected_effect
        (initialGameState\<lparr> gameStatus := Some ''active'' \<rparr>) openPage)"
  by (simp add: openPage_def initialGameState_def page_defs truthy_str_def)

text \<open>
  C7, amended. With the status \<open>waiting\<close>: the effect that follows the selection sets
  the flag to true when the game state has a selection list, that list or the placed
  bets are non-empty, and the just-started flag is absent; the terminal-close effect
  changes nothing; the effect that clears after an active game changes nothing unless
  the overlay is visible and the was-active flag is set. With a terminal status
  (\<open>completed\<close>, \<open>finished\<close>, \<open>cancelled\<close>): after the terminal-close effect the flag is
  false whatever the selection was, and if the overlay was visible the page's
  selection, the cartelas on offer and the saved overlay state are cleared; the other
  two effects do not open the overlay. With the status \<open>active\<close>: the terminal-close
  effect changes nothing, the clearing effect leaves the flag as it is, and the
  effect that follows the selection leaves the flag as it is when the game state has
  no selection list or when that list or the placed bets are non-empty; when both are
  empty it closes the overlay.
\<close>

theorem overlay_gating:
  "(gameStatus gs = Some ''waiting'' \<longrightarrow>
      (selectedCartelas gs = Some sel \<and> (sel \<noteq> [] \<or> placedBets p \<noteq> []) \<and>
       \<not> truthy_str (justStarted p) \<longrightarrow>
         showCartelas (sync_selected_effect gs p)) \<and>
      terminal_close_effect gs p = p \<and>
      (\<not> (showCartelas p \<and> wasActive p = Some ''true'') \<longrightarrow>
         game_end_clear_effect gs p = p)) \<and>
   (isTerminalStatus (gameStatus gs) \<longrightarrow>
      \<not> showCartelas (terminal_close_effect gs p) \<and>
      (showCartelas p \<longrightarrow>
         pageSelectedCartelas (terminal_close_effect gs p) = [] \<and>
         availableCartelas (terminal_close_effect gs p) = [] \<and>
         (truthy_str (displayToken p) \<longrightarrow>
            savedCartelaState (terminal_close_effect gs p) = Some (False, []))) \<and>
      (showCartelas (sync_selected_effect gs p) \<longrightarrow> showCartelas p) \<and>
      game_end_clear_effect gs p = p) \<and>
   (gameStatus gs = Some ''active'' \<longrightarrow>
      terminal_close_effect gs p = p \<and>
      showCartelas (game_end_clear_effect gs p) = showCartelas p \<and>
      (selectedCartelas gs = None \<longrightarrow> sync_selected_effect gs p = p) \<and>
      (selectedCartelas gs = Some sel \<and> (sel \<noteq> [] \<or> placedBets p \<noteq> []) \<longrightarrow>
         showCartelas (sync_selected_effect gs p) = showCartelas p) \<and>
      (selectedCartelas gs = Some [] \<and> placedBets p = [] \<longrightarrow>
         \<not> showCartelas (sync_selected_effect gs p)))"
  by (auto simp add: page_defs Let_def truthy_str_def split: option.splits)

theorem overlay_gating_witness:
  "\<not> showCartelas (openPage\<lparr> showCartelas := False \<rparr>) \<and>
   showCartelas (sync_selected_effect (initialGameState\<lparr> selectedCartelas := Some [5] \<rparr>)
      (openPage\<lparr> showCartelas := False \<rparr>)) \<and>
   isTerminalStatus (Some ''completed'') \<and>
   showCartelas (openPage\<lparr> pageSelectedCartelas := [5] \<rparr>) \<and>
   terminal_close_effect
      (initialGameState\<lparr> gameStatus := Some ''completed'', selectedCartelas := Some [5] \<rparr>)
      (openPage\<lparr> pageSelectedCartelas := [5] \<rparr>) =
     openPage\<lparr> showCartelas := False, availableCartelas := [],
       savedCartelaState := Some (False, []) \<rparr> \<and>
   showCartelas (sync_selected_effect
      (initialGameState\<lparr> gameStatus := Some ''active'', selectedCartelas := Some [5] \<rparr>)
      openPage)"
  using overlay_gating [of "initialGameState\<lparr> selectedCartelas := Some [5] \<rparr>" "[5]"
        "openPage\<lparr> showCartelas := False \<rparr>"]
    overlay_gating [of
        "initialGameState\<lparr> gameStatus := Some ''completed'', selectedCartelas := Some [5] \<rparr>"
        "[5]" "openPage\<lparr> pageSelectedCartelas := [5] \<rparr>"]
    overlay_gating [of
        "initialGameState\<lparr> gameStatus := Some ''active'', selectedCartelas := Some [5] \<rparr>"
        "[5]" openPage]
  by (simp add: openPage_def initialGameState_def page_defs truthy_str_def)

section \<open>The column of a number\<close>

text \<open>
  C8. For every integer \<open>n\<close> the column function gives B on 1..15, I on 16..30, N on
  31..45, G on 46..60 and O on 61..75; for 0, for 76 and for every other \<open>n\<close> outside
  1..75 it gives no column: the result is the empty string, which is none of the five
  letters.
\<close>

theorem getColumnForNumber_ranges:
  "(1 \<le> n \<and> n \<le> 15 \<longrightarrow> getColumnForNumber n = ''B'') \<and>
   (16 \<le> n \<and> n \<le> 30 \<longrightarrow> getColumnForNumber n = ''I'') \<and>
   (31 \<le> n \<and> n \<le> 45 \<longrightarrow> getColumnForNumber n = ''N'') \<and>
   (46 \<le> n \<and> n \<le> 60 \<longrightarrow> getColumnForNumber n = ''G'') \<and>
   (61 \<le> n \<and> n \<le> 75 \<longrightarrow> getColumnForNumber n = ''O'') \<and>
   (n < 1 \<or> 75 < n \<longrightarrow>
      getColumnForNumber n = '''' \<and> getColumnForNumber n \<notin> columnLetters) \<and>
   getColumnForNumber 0 \<notin> columnLetters \<and>
   getColumnForNumber 76 \<notin> columnLetters"
  by (simp add: getColumnForNumber_def columnLetters_def)

theorem getColumnForNumber_ranges_witness:
  "getColumnForNumber 1 = ''B'' \<and> getColumnForNumber 15 = ''B'' \<and>
   getColumnForNumber 16 = ''I'' \<and> getColumnForNumber 30 = ''I'' \<and>
   getColumnForNumber 31 = ''N'' \<and> getColumnForNumber 37 = ''N'' \<and>
   getColumnForNumber 45 = ''N'' \<and>
   getColumnForNumber 46 = ''G'' \<and> getColumnForNumber 60 = ''G'' \<and>
   getColumnForNumber 61 = ''O'' \<and> getColumnForNumber 75 = ''O'' \<and>
   getColumnForNumber 0 = '''' \<and> getColumnForNumber 76 = '''' \<and>
   getColumnForNumber (- 3) = ''''"
  using getColumnForNumber_ranges [of 1] getColumnForNumber_ranges [of 15]
    getColumnForNumber_ranges [of 16] getColumnForNumber_ranges [of 30]
    getColumnForNumber_ranges [of 31] getColumnForNumber_ranges [of 37]
    getColumnForNumber_ranges [of 45] getColumnForNumber_ranges [of 46]
    getColumnForNumber_ranges [of 60] getColumnForNumber_ranges [of 61]
    getColumnForNumber_ranges [of 75] getColumnForNumber_ranges [of 0]
    getColumnForNumber_ranges [of 76] getColumnForNumber_ranges [of "- 3"]
  by simp

section \<open>A missing display token\<close>

text \<open>
  C9, as the claim states it, fails: with no token, or an empty one, the hook's
  connection effect returns before \<^verbatim>\<open>initializeSocket\<close> is called, so the connection
  error is not the NoToken message; on the initial state it stays \<^verbatim>\<open>null\<close>.
\<close>

theorem no_token_counterexample:
  "connectionError (connection_effect False None initialHookState) \<noteq> Some NO_TOKEN \<and>
   connectionError (connection_effect False (Some '''') initialHookState) \<noteq> Some NO_TOKEN"
  by (simp add: connection_effect_def truthy_str_def initialHookState_def)

text \<open>
  C9, amended. If the display token is absent or empty, no connection attempt is made:
  the connection effect leaves the hook's state as it is, with no socket, the
  connection error and the connected flag unchanged. \<^verbatim>\<open>initializeSocket\<close> itself,
  called with such a token, returns \<^verbatim>\<open>null\<close> without creating a socket, sets the
  connection error to the NoToken message and the connected flag to false.
\<close>

theorem no_token_no_connection:
  "\<not> truthy_str dt \<longrightarrow>
     connection_effect ioThrows dt h = h \<and>
     snd (initializeSocket ioThrows dt h) = None \<and>
     connectionError (fst (initializeSocket ioThrows dt h)) = Some NO_TOKEN \<and>
     isConnected (fst (initializeSocket ioThrows dt h)) = False \<and>
     socket (fst (initializeSocket ioThrows dt h)) = socket h"
  by (simp add: connection_effect_def initializeSocket_def truthy_str_def split: option.splits)

theorem no_token_no_connection_witness:
  "\<not> truthy_str None \<and> \<not> truthy_str (Some '''') \<and>
   socket (connection_effect False None initialHookState) = None \<and>
   socket (connection_effect False (Some '''') initialHookState) = None \<and>
   initializeSocket False None initialHookState =
     (initialHookState\<lparr> connectionError := Some NO_TOKEN, isConnected := False,
        isLoading := False \<rparr>, None) \<and>
   socket (connection_effect False (Some ''Y'') initialHookState) \<noteq> None"
  using no_token_no_connection [of None False initialHookState]
    no_token_no_connection [of "Some ''''" False initialHookState]
  by (simp add: truthy_str_def initialHookState_def initializeSocket_def connection_effect_def)

section \<open>A supplied zero\<close>

text \<open>
  C10, as the claim states it, fails for \<^verbatim>\<open>game_data_updated\<close>: with
  \<open>totalStack = 500\<close>, the event with an id and \<open>gameData.totalStack = 0\<close> sets
  \<open>totalStack\<close> to 0.
\<close>

theorem zero_overwrites_counterexample:
  "totalStack (initialGameState\<lparr> totalStack := Some 500 \<rparr>) = Some 500 \<and>
   totalStack (reduce_game
      (GameDataUpdated \<lparr> msgId = Some ''G1'', msgStatus = None,
         msgGameData = Some (noGameData\<lparr> gdTotalStack := Some 0 \<rparr>) \<rparr>)
      (initialGameState\<lparr> totalStack := Some 500 \<rparr>)) = Some 0"
  by (simp add: reduce_game_def game_data_updated_handler1_def
      game_data_updated_handler2_def js_defs Let_def noGameData_def initialGameState_def
      shouldUpdateGameId_def)

text \<open>
  C10, amended. For each financial aggregate (\<open>stack\<close>, \<open>totalStack\<close>,
  \<open>totalWinStack\<close>, \<open>totalShopMargin\<close>, \<open>totalSystemFee\<close>, \<open>netPrizePool\<close>,
  \<open>netShopProfit\<close>) and every game state: a \<^verbatim>\<open>bets_placed\<close> event that supplies the
  value 0 keeps the previous value, and \<^verbatim>\<open>bets_placed\<close> changes the aggregate only to
  a supplied value other than 0; the first \<^verbatim>\<open>game_data_updated\<close> handler, taken
  alone, also keeps the previous value on a supplied 0. The second
  \<^verbatim>\<open>game_data_updated\<close> handler runs after it on the same event and takes every
  supplied value, so a \<^verbatim>\<open>game_data_updated\<close> event with an id sets the aggregate to
  the value it supplies, 0 included.
\<close>

theorem zero_supplied_merge:
  "(\<forall>(f, pf) \<in> set financialAggregates.
      (pf gd = Some 0 \<longrightarrow> f (reduce_game (BetsPlaced (Some gd)) g) = f g) \<and>
      (f (reduce_game (BetsPlaced gdo) g) \<noteq> f g \<longrightarrow>
         (\<exists>v. v \<noteq> 0 \<and> fld gdo pf = Some v \<and> f (reduce_game (BetsPlaced gdo) g) = Some v)) \<and>
      (fld (msgGameData d) pf = Some 0 \<longrightarrow> f (game_data_updated_handler1 d g) = f g) \<and>
      (truthy_str (msgId d) \<and> fld (msgGameData d) pf = Some v \<longrightarrow>
         f (reduce_game (GameDataUpdated d) g) = Some v))"
  by (simp add: financialAggregates_def reduce_game_def bets_placed_handler_def
     game_data_updated_handler1_def game_data_updated_handler2_def Let_def js_defs
     split: option.splits)

theorem zero_supplied_merge_witness:
  "(totalStack, gdTotalStack) \<in> set financialAggregates \<and>
   gdTotalStack (noGameData\<lparr> gdTotalStack := Some 0 \<rparr>) = Some 0 \<and>
   totalStack (reduce_game (BetsPlaced (Some (noGameData\<lparr> gdTotalStack := Some 0 \<rparr>)))
      (initialGameState\<lparr> totalStack := Some 500 \<rparr>)) = Some 500 \<and>
   totalStack (reduce_game
      (GameDataUpdated \<lparr> msgId = Some ''G1'', msgStatus = None,
         msgGameData = Some (noGameData\<lparr> gdTotalStack := Some 650 \<rparr>) \<rparr>)
      (initialGameState\<lparr> totalStack := Some 500 \<rparr>)) = Some 650"
  using zero_supplied_merge [of "noGameData\<lparr> gdTotalStack := Some 0 \<rparr>"
      "initialGameState\<lparr> totalStack := Some 500 \<rparr>" None
      "\<lparr> msgId = Some ''G1'', msgStatus = None,
         msgGameData = Some (noGameData\<lparr> gdTotalStack := Some 650 \<rparr>) \<rparr>" 650]
  by (simp add: financialAggregates_def fld_def truthy_str_def initialGameState_def)

end
